theory Spec2Isabelle
  imports Main "HOL-Library.Char_ord" "HOL-Library.List_Lexorder" "HOL-Library.Product_Lexorder"
begin

section \<open>Data model of \<open>examples/batch_request.py\<close>\<close>

text \<open>
  The script is a linear pipeline over module-level variables: generate series ids,
  post them in batches, reconcile the returned series with the generated metadata,
  label and pivot with pandas, write a CSV file. Each stage is embedded as a function
  from the variables it reads to the variables it writes. Python dictionaries with a
  fixed set of string keys are records; exceptions that leave a stage are values of
  \<open>py_error\<close>. The start of the script (the check of the API key, the loading of the
  reference document) and the progress lines it prints are not part of the model.
\<close>

datatype py_error = ValueError | KeyError

text \<open>The dictionary appended to \<open>series_metadata\<close> (lines 44-49).\<close>

record series_meta =
  meta_series_id :: string
  meta_state_code :: string
  meta_occupation_code :: string
  meta_datatype_code :: string

text \<open>The two accumulators of the generation loop (lines 36-37).\<close>

record gen_state =
  series_ids :: "string list"
  series_metadata :: "series_meta list"

section \<open>Series id generation (lines 27-49)\<close>

definition industry_code :: string where
  "industry_code = ''000000''"

definition datatype_codes :: "string list" where
  "datatype_codes = [''04'', ''13'']"

text \<open>The f-string of line 41.\<close>

definition make_series_id :: "string \<Rightarrow> string \<Rightarrow> string \<Rightarrow> string" where
  "make_series_id state_code occ_code datatype =
     ''OEUS'' @ state_code @ industry_code @ occ_code @ datatype"

text \<open>
  \<open>itertools.product(a, b, c)\<close> yields the triples with the rightmost argument
  advancing fastest, which is the order of nested \<open>List.product\<close>.
\<close>

definition product3 :: "'a list \<Rightarrow> 'b list \<Rightarrow> 'c list \<Rightarrow> ('a \<times> 'b \<times> 'c) list" where
  "product3 xs ys zs = List.product xs (List.product ys zs)"

text \<open>One iteration of the loop body (lines 41-49): two appends.\<close>

fun gen_step :: "gen_state \<Rightarrow> string \<times> string \<times> string \<Rightarrow> gen_state" where
  "gen_step st (state_code, occ_code, datatype) =
     (let series_id = make_series_id state_code occ_code datatype in
        \<lparr>series_ids = series_ids st @ [series_id],
         series_metadata = series_metadata st @
           [\<lparr>meta_series_id = series_id,
             meta_state_code = state_code,
             meta_occupation_code = occ_code,
             meta_datatype_code = datatype\<rparr>]\<rparr>)"

definition generate :: "string list \<Rightarrow> string list \<Rightarrow> string list \<Rightarrow> gen_state" where
  "generate state_codes occupation_codes dt_codes =
     foldl gen_step \<lparr>series_ids = [], series_metadata = []\<rparr>
       (product3 state_codes occupation_codes dt_codes)"


text \<open>What one triple of the product contributes to each accumulator.\<close>

definition meta_of :: "string \<times> string \<times> string \<Rightarrow> series_meta" where
  "meta_of t = (case t of (s, oc, d) \<Rightarrow>
     \<lparr>meta_series_id = make_series_id s oc d, meta_state_code = s,
      meta_occupation_code = oc, meta_datatype_code = d\<rparr>)"

definition id_of :: "string \<times> string \<times> string \<Rightarrow> string" where
  "id_of t = (case t of (s, oc, d) \<Rightarrow> make_series_id s oc d)"

section \<open>Batched requests (lines 54-86)\<close>

text \<open>
  One observation of a returned series, and one entry of \<open>data['Results']['series']\<close>,
  with the keys the script reads.
\<close>

record data_point =
  dp_period :: string
  dp_year :: string
  dp_value :: string

record raw_series =
  seriesID :: string
  data :: "data_point list"

text \<open>
  What one \<open>requests.post\<close> inside the \<open>try\<close> block amounts to: either a
  \<open>RequestException\<close> is raised (connection error, timeout, or the HTTP error status
  turned into an exception by \<open>raise_for_status\<close>), or a JSON envelope arrives, of which
  the script reads \<open>data['status']\<close> and, on success, \<open>data['Results']['series']\<close>.
  The envelope is typed: an answer without these keys, which would raise \<open>KeyError\<close>
  past the \<open>except\<close> clause, is not a value of the type.
\<close>

datatype response = RequestException | Envelope string "raw_series list"

text \<open>
  The externally visible steps of the loop, in the order they happen: a batch is posted
  (with its number), or the script sleeps for the rate limit.
\<close>

datatype event = Post nat "string list" | Sleep

record fetch_state =
  all_results :: "raw_series list"
  events :: "event list"

definition BATCH_SIZE :: nat where
  "BATCH_SIZE = 50"

text \<open>The \<open>try\<close> block of one iteration (lines 70-82), after the call has come back.\<close>

fun handle_response :: "response \<Rightarrow> raw_series list \<Rightarrow> raw_series list" where
  "handle_response RequestException results = results"
| "handle_response (Envelope status series) results =
     (if status = ''REQUEST_SUCCEEDED'' then results @ series else results)"

text \<open>
  The loop \<open>for i in range(0, len(series_ids), BATCH_SIZE)\<close>, with \<open>i\<close> as an argument.
  The remote service is a function of the batch number and the batch, so that two calls
  with equal batches may still be answered differently.
\<close>

function batch_loop ::
  "(nat \<Rightarrow> string list \<Rightarrow> response) \<Rightarrow> string list \<Rightarrow> nat \<Rightarrow> fetch_state \<Rightarrow> fetch_state" where
  "batch_loop api ids i st =
     (if i < length ids then
        (let batch_num = i div BATCH_SIZE + 1;
             batch = take BATCH_SIZE (drop i ids);
             st1 = \<lparr>all_results = handle_response (api batch_num batch) (all_results st),
                    events = events st @ [Post batch_num batch]\<rparr>;
             st2 = (if i + BATCH_SIZE < length ids
                    then st1\<lparr>events := events st1 @ [Sleep]\<rparr> else st1)
         in batch_loop api ids (i + BATCH_SIZE) st2)
      else st)"
  by pat_completeness auto
termination
  by (relation "measure (\<lambda>(api, ids, i, st). length ids - i)") (auto simp: BATCH_SIZE_def)

definition fetch_all :: "(nat \<Rightarrow> string list \<Rightarrow> response) \<Rightarrow> string list \<Rightarrow> fetch_state" where
  "fetch_all api ids = batch_loop api ids 0 \<lparr>all_results = [], events = []\<rparr>"

section \<open>Reconciliation (lines 92-112)\<close>

text \<open>The dictionary appended to \<open>processed_data\<close>; \<open>'f\<close> is the type of Python floats.\<close>

record 'f flat_record =
  fr_series_id :: string
  fr_state_code :: string
  fr_occupation_code :: string
  fr_datatype_code :: string
  fr_year :: string
  fr_value :: "'f option"

text \<open>Line 98: \<open>next((m for m in series_metadata if m['series_id'] == series_id), None)\<close>.\<close>

definition find_metadata :: "series_meta list \<Rightarrow> string \<Rightarrow> series_meta option" where
  "find_metadata metas sid = List.find (\<lambda>m. meta_series_id m = sid) metas"

text \<open>
  Line 111: \<open>float(v) if v != '-' else None\<close>. The builtin \<open>float\<close> is a parameter:
  \<open>None\<close> stands for the \<open>ValueError\<close> it raises on a string it cannot parse.
\<close>

definition parse_value :: "(string \<Rightarrow> 'f option) \<Rightarrow> string \<Rightarrow> py_error + 'f option" where
  "parse_value pyfloat v =
     (if v \<noteq> ''-'' then
        (case pyfloat v of None \<Rightarrow> Inl ValueError | Some x \<Rightarrow> Inr (Some x))
      else Inr None)"

text \<open>The inner loop over \<open>series['data']\<close> (lines 103-112).\<close>

fun data_loop ::
  "(string \<Rightarrow> 'f option) \<Rightarrow> string \<Rightarrow> series_meta \<Rightarrow> data_point list \<Rightarrow>
   'f flat_record list \<Rightarrow> py_error + 'f flat_record list" where
  "data_loop pyfloat sid metadata [] processed_data = Inr processed_data"
| "data_loop pyfloat sid metadata (data_point # rest) processed_data =
     (if dp_period data_point = ''A01'' then
        (case parse_value pyfloat (dp_value data_point) of
           Inl e \<Rightarrow> Inl e
         | Inr v \<Rightarrow>
             data_loop pyfloat sid metadata rest
               (processed_data @
                 [\<lparr>fr_series_id = sid,
                   fr_state_code = meta_state_code metadata,
                   fr_occupation_code = meta_occupation_code metadata,
                   fr_datatype_code = meta_datatype_code metadata,
                   fr_year = dp_year data_point,
                   fr_value = v\<rparr>]))
      else data_loop pyfloat sid metadata rest processed_data)"

text \<open>The outer loop over \<open>all_results\<close> (lines 94-112).\<close>

fun reconcile_loop ::
  "(string \<Rightarrow> 'f option) \<Rightarrow> series_meta list \<Rightarrow> raw_series list \<Rightarrow>
   'f flat_record list \<Rightarrow> py_error + 'f flat_record list" where
  "reconcile_loop pyfloat metas [] processed_data = Inr processed_data"
| "reconcile_loop pyfloat metas (series # rest) processed_data =
     (case find_metadata metas (seriesID series) of
        None \<Rightarrow> reconcile_loop pyfloat metas rest processed_data
      | Some metadata \<Rightarrow>
          (case data_loop pyfloat (seriesID series) metadata (data series) processed_data of
             Inl e \<Rightarrow> Inl e
           | Inr processed_data' \<Rightarrow> reconcile_loop pyfloat metas rest processed_data'))"

definition reconcile ::
  "(string \<Rightarrow> 'f option) \<Rightarrow> series_meta list \<Rightarrow> raw_series list \<Rightarrow>
   py_error + 'f flat_record list" where
  "reconcile pyfloat metas results = reconcile_loop pyfloat metas results []"

text \<open>Reading the trace: the batches posted, in order, and the number of sleeps.\<close>

fun posted :: "event list \<Rightarrow> string list list" where
  "posted [] = []"
| "posted (Post n batch # es) = batch # posted es"
| "posted (Sleep # es) = posted es"

fun sleeps :: "event list \<Rightarrow> nat" where
  "sleeps [] = 0"
| "sleeps (Post n batch # es) = sleeps es"
| "sleeps (Sleep # es) = Suc (sleeps es)"

text \<open>
  A trace in which posts and sleeps alternate, starting and ending with a post: one
  sleep between two consecutive posts, none before the first and none after the last.
\<close>

fun one_delay_between :: "event list \<Rightarrow> bool" where
  "one_delay_between [] = True"
| "one_delay_between [Post n batch] = True"
| "one_delay_between (Post n batch # Sleep # es) = (es \<noteq> [] \<and> one_delay_between es)"
| "one_delay_between es = False"

text \<open>
  Names for what the two loops do, used to state their results: the annual observations
  of a series, the record built from one of them (lines 105-112), whether the conditional
  of line 111 goes through for a value, and the observations the outer loop reaches
  (those of the series that have metadata), each with the identifier and the metadata
  found for it.
\<close>

definition annual :: "data_point list \<Rightarrow> data_point list" where
  "annual dps = filter (\<lambda>dp. dp_period dp = ''A01'') dps"

definition flat_of :: "(string \<Rightarrow> 'f option) \<Rightarrow> string \<Rightarrow> series_meta \<Rightarrow> data_point \<Rightarrow> 'f flat_record" where
  "flat_of pyfloat sid metadata dp =
     \<lparr>fr_series_id = sid,
      fr_state_code = meta_state_code metadata,
      fr_occupation_code = meta_occupation_code metadata,
      fr_datatype_code = meta_datatype_code metadata,
      fr_year = dp_year dp,
      fr_value = (if dp_value dp = ''-'' then None else pyfloat (dp_value dp))\<rparr>"

definition parses :: "(string \<Rightarrow> 'f option) \<Rightarrow> data_point \<Rightarrow> bool" where
  "parses pyfloat dp = (dp_value dp = ''-'' \<or> pyfloat (dp_value dp) \<noteq> None)"

definition selected :: "series_meta list \<Rightarrow> raw_series list \<Rightarrow> (string \<times> series_meta \<times> data_point) list" where
  "selected metas results =
     concat (map (\<lambda>series.
       case find_metadata metas (seriesID series) of
         None \<Rightarrow> []
       | Some metadata \<Rightarrow> map (\<lambda>dp. (seriesID series, metadata, dp)) (annual (data series)))
       results)"

definition flat_of_selected ::
  "(string \<Rightarrow> 'f option) \<Rightarrow> string \<times> series_meta \<times> data_point \<Rightarrow> 'f flat_record" where
  "flat_of_selected pyfloat t = (case t of (sid, metadata, dp) \<Rightarrow> flat_of pyfloat sid metadata dp)"

section \<open>The pandas stages (lines 115-139)\<close>

text \<open>
  pandas is a library the script calls; of its behaviour the model keeps what these
  lines depend on.
  \<^item> \<open>pd.DataFrame(records)\<close> of a list of dictionaries has one row per dictionary and the
    dictionaries' keys as columns, in key order; of the empty list it has no rows and
    no columns. A \<open>None\<close> value is a missing cell.
  \<^item> \<open>df[c]\<close> raises \<open>KeyError\<close> when \<open>c\<close> is not a column.
  \<^item> \<open>series.map(dict)\<close> looks every value up; a value that is not a key gives a
    missing cell.
  \<^item> \<open>df[c] = series\<close> replaces column \<open>c\<close>, or appends it as the last column.
  \<^item> \<open>df.pivot_table(index, columns, values, aggfunc='first')\<close> groups the rows by the
    index and column keys, leaving out rows in which one of the keys is missing; takes
    in every group the first value that is not missing; leaves out the groups that
    have none (\<open>dropna=True\<close> is the default); and lays the remaining groups out with the
    index keys as sorted rows and the column keys as sorted columns, a missing cell
    where a row has no group for a column.
  \<^item> \<open>reset_index()\<close> turns the index keys into leading columns and raises \<open>ValueError\<close>
    when a column of that name exists already.
  \<^item> \<open>df.to_csv(path, index=False)\<close> writes the column names and then one line per row.
  The missing cell is \<open>NaN\<close>. A float that is not-a-number, which \<open>float\<close> returns for
  the string \<open>nan\<close>, is a missing cell as well: pandas does not tell it apart from
  \<open>None\<close>. The text of the file (separators, quoting, the digits of a float) is not
  modelled: the file is its header and its lines of cells.
\<close>

text \<open>
  A Python float as these stages see it: not-a-number, or any other float (infinities
  included).
\<close>

datatype 'f py_float = Number 'f | NotANumber

datatype 'f cell = Str string | Num 'f | NaN

record 'f dataframe =
  df_columns :: "string list"
  df_rows :: "'f cell list list"

text \<open>Line 115: \<open>df = pd.DataFrame(processed_data)\<close>.\<close>

definition flat_columns :: "string list" where
  "flat_columns =
     [''series_id'', ''state_code'', ''occupation_code'', ''datatype_code'', ''year'', ''value'']"

definition value_cell :: "'f py_float flat_record \<Rightarrow> 'f cell" where
  "value_cell r =
     (case fr_value r of
        None \<Rightarrow> NaN
      | Some NotANumber \<Rightarrow> NaN
      | Some (Number x) \<Rightarrow> Num x)"

definition flat_row :: "'f py_float flat_record \<Rightarrow> 'f cell list" where
  "flat_row r =
     [Str (fr_series_id r), Str (fr_state_code r), Str (fr_occupation_code r),
      Str (fr_datatype_code r), Str (fr_year r), value_cell r]"

definition DataFrame :: "'f py_float flat_record list \<Rightarrow> 'f dataframe" where
  "DataFrame processed_data =
     (if processed_data = [] then \<lparr>df_columns = [], df_rows = []\<rparr>
      else \<lparr>df_columns = flat_columns, df_rows = map flat_row processed_data\<rparr>)"

fun index_of :: "'a \<Rightarrow> 'a list \<Rightarrow> nat option" where
  "index_of x [] = None"
| "index_of x (y # ys) = (if x = y then Some 0 else map_option Suc (index_of x ys))"

definition getitem :: "'f dataframe \<Rightarrow> string \<Rightarrow> py_error + 'f cell list" where
  "getitem df c =
     (case index_of c (df_columns df) of
        None \<Rightarrow> Inl KeyError
      | Some k \<Rightarrow> Inr (map (\<lambda>row. row ! k) (df_rows df)))"

definition setitem :: "'f dataframe \<Rightarrow> string \<Rightarrow> 'f cell list \<Rightarrow> 'f dataframe" where
  "setitem df c col =
     (case index_of c (df_columns df) of
        None \<Rightarrow>
          \<lparr>df_columns = df_columns df @ [c],
           df_rows = map (\<lambda>(row, v). row @ [v]) (zip (df_rows df) col)\<rparr>
      | Some k \<Rightarrow>
          \<lparr>df_columns = df_columns df,
           df_rows = map (\<lambda>(row, v). row[k := v]) (zip (df_rows df) col)\<rparr>)"

definition series_map :: "(string \<times> string) list \<Rightarrow> 'f cell list \<Rightarrow> 'f cell list" where
  "series_map names col =
     map (\<lambda>c. case c of
            Str code \<Rightarrow> (case map_of names code of Some name \<Rightarrow> Str name | None \<Rightarrow> NaN)
          | Num x \<Rightarrow> NaN
          | NaN \<Rightarrow> NaN) col"

text \<open>
  The parts of the reference document the script reads (lines 25-26 and 118-120), each
  a dictionary from code to name, kept in document order (a dictionary holds a key
  once). The state and occupation codes of lines 25-26 are the keys of the first two.
\<close>

record catalog =
  state_names :: "(string \<times> string) list"
  occupation_names :: "(string \<times> string) list"
  datatype_names :: "(string \<times> string) list"

text \<open>Lines 122-124: the three label columns.\<close>

definition add_labels :: "catalog \<Rightarrow> 'f dataframe \<Rightarrow> py_error + 'f dataframe" where
  "add_labels codes df =
     (case getitem df ''state_code'' of
        Inl e \<Rightarrow> Inl e
      | Inr sc \<Rightarrow>
          (let df1 = setitem df ''state_name'' (series_map (state_names codes) sc) in
           case getitem df1 ''occupation_code'' of
             Inl e \<Rightarrow> Inl e
           | Inr oc \<Rightarrow>
               (let df2 = setitem df1 ''occupation_name'' (series_map (occupation_names codes) oc) in
                case getitem df2 ''datatype_code'' of
                  Inl e \<Rightarrow> Inl e
                | Inr dc \<Rightarrow>
                    Inr (setitem df2 ''datatype_name''
                          (series_map (datatype_names codes) dc)))))"

text \<open>
  Lines 127-132. A row takes part in the pivot when its three keys are present; the
  entries are the keys with the row's value, in row order.
\<close>

fun key_of :: "'f cell \<Rightarrow> 'f cell \<Rightarrow> 'f cell \<Rightarrow> (string \<times> string \<times> string) option" where
  "key_of (Str s) (Str oc) (Str d) = Some (s, oc, d)"
| "key_of _ _ _ = None"

fun pivot_entries ::
  "'f cell list \<Rightarrow> 'f cell list \<Rightarrow> 'f cell list \<Rightarrow> 'f cell list \<Rightarrow>
   ((string \<times> string \<times> string) \<times> 'f cell) list" where
  "pivot_entries (s # ss) (oc # ocs) (d # ds) (v # vs) =
     (case key_of s oc d of
        None \<Rightarrow> pivot_entries ss ocs ds vs
      | Some k \<Rightarrow> (k, v) # pivot_entries ss ocs ds vs)"
| "pivot_entries _ _ _ _ = []"

text \<open>\<open>aggfunc='first'\<close>: the first value of the group that is not missing.\<close>

definition agg_first ::
  "((string \<times> string \<times> string) \<times> 'f cell) list \<Rightarrow> string \<times> string \<times> string \<Rightarrow> 'f cell option" where
  "agg_first entries k = List.find (\<lambda>v. v \<noteq> NaN) (map snd (filter (\<lambda>e. fst e = k) entries))"

definition group_keys ::
  "((string \<times> string \<times> string) \<times> 'f cell) list \<Rightarrow> (string \<times> string \<times> string) list" where
  "group_keys entries =
     remdups (map fst (filter (\<lambda>e. agg_first entries (fst e) \<noteq> None) entries))"

definition wide_cell ::
  "((string \<times> string \<times> string) \<times> 'f cell) list \<Rightarrow> string \<times> string \<Rightarrow> string \<Rightarrow> 'f cell" where
  "wide_cell entries p d =
     (case agg_first entries (fst p, snd p, d) of None \<Rightarrow> NaN | Some v \<Rightarrow> v)"

definition pivot_table :: "'f dataframe \<Rightarrow> py_error + 'f dataframe" where
  "pivot_table df =
     (case getitem df ''state_name'' of
        Inl e \<Rightarrow> Inl e
      | Inr ss \<Rightarrow>
     (case getitem df ''occupation_name'' of
        Inl e \<Rightarrow> Inl e
      | Inr ocs \<Rightarrow>
     (case getitem df ''datatype_name'' of
        Inl e \<Rightarrow> Inl e
      | Inr ds \<Rightarrow>
     (case getitem df ''value'' of
        Inl e \<Rightarrow> Inl e
      | Inr vs \<Rightarrow>
        (let entries = pivot_entries ss ocs ds vs;
             keys = group_keys entries;
             index = sort (remdups (map (\<lambda>(s, oc, d). (s, oc)) keys));
             cols = sort (remdups (map (\<lambda>(s, oc, d). d) keys))
         in if ''state_name'' \<in> set cols \<or> ''occupation_name'' \<in> set cols then Inl ValueError
            else Inr \<lparr>df_columns = ''state_name'' # ''occupation_name'' # cols,
                      df_rows = map (\<lambda>p. Str (fst p) # Str (snd p) #
                                           map (wide_cell entries p) cols) index\<rparr>)))))"

text \<open>Line 139.\<close>

record 'f csv_file =
  csv_header :: "string list"
  csv_lines :: "'f cell list list"

definition to_csv :: "'f dataframe \<Rightarrow> 'f csv_file" where
  "to_csv df = \<lparr>csv_header = df_columns df, csv_lines = df_rows df\<rparr>"

section \<open>The whole script, from the loaded reference document on\<close>

text \<open>
  What the run leaves behind when it reaches its last line: the wide table it prints and
  the file it writes. An exception that ends the run earlier is the result \<open>Inl\<close>, and
  then no file is written.
\<close>

record 'f run_output =
  df_wide :: "'f dataframe"
  output_file :: "'f csv_file"

definition shape_and_save ::
  "catalog \<Rightarrow> 'f py_float flat_record list \<Rightarrow> py_error + 'f run_output" where
  "shape_and_save codes processed_data =
     (case add_labels codes (DataFrame processed_data) of
        Inl e \<Rightarrow> Inl e
      | Inr df \<Rightarrow>
          (case pivot_table df of
             Inl e \<Rightarrow> Inl e
           | Inr wide \<Rightarrow> Inr \<lparr>df_wide = wide, output_file = to_csv df\<rparr>))"

definition run ::
  "(nat \<Rightarrow> string list \<Rightarrow> response) \<Rightarrow> (string \<Rightarrow> 'f py_float option) \<Rightarrow> catalog \<Rightarrow>
   py_error + 'f run_output" where
  "run api pyfloat codes =
     (let state_codes = map fst (state_names codes);
          occupation_codes = map fst (occupation_names codes);
          g = generate state_codes occupation_codes datatype_codes;
          st = fetch_all api (series_ids g)
      in case reconcile pyfloat (series_metadata g) (all_results st) of
           Inl e \<Rightarrow> Inl e
         | Inr processed_data \<Rightarrow> shape_and_save codes processed_data)"

text \<open>
  Names used to state what the pandas stages produce: the label a code is mapped to, a
  row of the labelled frame, the three names of a record (when all three codes have
  one), the records that have names and a value, the pivot's entries, and the first value of a
  key.
\<close>

definition label_cell :: "(string \<times> string) list \<Rightarrow> string \<Rightarrow> 'f cell" where
  "label_cell names code = (case map_of names code of Some name \<Rightarrow> Str name | None \<Rightarrow> NaN)"

definition labelled_row :: "catalog \<Rightarrow> 'f py_float flat_record \<Rightarrow> 'f cell list" where
  "labelled_row codes r =
     flat_row r @
     [label_cell (state_names codes) (fr_state_code r),
      label_cell (occupation_names codes) (fr_occupation_code r),
      label_cell (datatype_names codes) (fr_datatype_code r)]"

definition labelled_columns :: "string list" where
  "labelled_columns = flat_columns @ [''state_name'', ''occupation_name'', ''datatype_name'']"

definition names_of :: "catalog \<Rightarrow> 'f flat_record \<Rightarrow> (string \<times> string \<times> string) option" where
  "names_of codes r =
     (case map_of (state_names codes) (fr_state_code r) of
        None \<Rightarrow> None
      | Some s \<Rightarrow>
          (case map_of (occupation_names codes) (fr_occupation_code r) of
             None \<Rightarrow> None
           | Some oc \<Rightarrow>
               (case map_of (datatype_names codes) (fr_datatype_code r) of
                  None \<Rightarrow> None
                | Some d \<Rightarrow> Some (s, oc, d))))"

definition valued ::
  "catalog \<Rightarrow> 'f py_float flat_record list \<Rightarrow> ((string \<times> string \<times> string) \<times> 'f) list" where
  "valued codes recs =
     List.map_filter
       (\<lambda>r. case names_of codes r of
               None \<Rightarrow> None
             | Some k \<Rightarrow>
                 (case fr_value r of
                    None \<Rightarrow> None
                  | Some NotANumber \<Rightarrow> None
                  | Some (Number x) \<Rightarrow> Some (k, x)))
       recs"

definition entries_of ::
  "catalog \<Rightarrow> 'f py_float flat_record list \<Rightarrow> ((string \<times> string \<times> string) \<times> 'f cell) list" where
  "entries_of codes recs =
     List.map_filter (\<lambda>r. map_option (\<lambda>k. (k, value_cell r)) (names_of codes r)) recs"

definition first_value ::
  "catalog \<Rightarrow> 'f py_float flat_record list \<Rightarrow> string \<times> string \<times> string \<Rightarrow> 'f cell" where
  "first_value codes recs k =
     (case List.find (\<lambda>e. fst e = k) (valued codes recs) of
        None \<Rightarrow> NaN
      | Some e \<Rightarrow> Num (snd e))"

text \<open>
  The identifiers and metadata the script generates from a reference document, and what
  counts as a failed batch: an exception of the request, or an envelope whose status is
  not \<open>REQUEST_SUCCEEDED\<close>.
\<close>

definition script_ids :: "catalog \<Rightarrow> string list" where
  "script_ids codes =
     series_ids (generate (map fst (state_names codes)) (map fst (occupation_names codes))
       datatype_codes)"

definition script_metadata :: "catalog \<Rightarrow> series_meta list" where
  "script_metadata codes =
     series_metadata (generate (map fst (state_names codes)) (map fst (occupation_names codes))
       datatype_codes)"

fun batch_failed :: "response \<Rightarrow> bool" where
  "batch_failed RequestException = True"
| "batch_failed (Envelope status series) = (status \<noteq> ''REQUEST_SUCCEEDED'')"

section \<open>Example data\<close>

text \<open>A small reference document, used where a property is evaluated on concrete input.\<close>

definition example_codes :: catalog where
  "example_codes =
     \<lparr>state_names = [(''06'', ''California'')],
      occupation_names = [(''11-0000'', ''Management'')],
      datatype_names = [(''04'', ''Annual mean wage''), (''13'', ''Annual median wage'')]\<rparr>"

text \<open>
  A service that answers every batch with the same two series (a mean wage, and a median
  wage that is not available), a stand-in for \<open>float\<close> that knows three numbers and
  \<open>nan\<close>, and four flat records of one state and occupation, three of them for the same
  measure type, the first of these with the value not-a-number.
\<close>

definition example_api :: "nat \<Rightarrow> string list \<Rightarrow> response" where
  "example_api n batch =
     Envelope ''REQUEST_SUCCEEDED''
       [\<lparr>seriesID = ''OEUS0600000011-000004'',
         data = [\<lparr>dp_period = ''A01'', dp_year = ''2023'', dp_value = ''52000''\<rparr>]\<rparr>,
        \<lparr>seriesID = ''OEUS0600000011-000013'',
         data = [\<lparr>dp_period = ''A01'', dp_year = ''2023'', dp_value = ''-''\<rparr>]\<rparr>]"

definition example_float :: "string \<Rightarrow> nat py_float option" where
  "example_float v =
     (if v = ''52000'' then Some (Number 52000)
      else if v = ''51000'' then Some (Number 51000)
      else if v = ''50000'' then Some (Number 50000)
      else if v = ''nan'' then Some NotANumber
      else None)"

definition example_records :: "nat py_float flat_record list" where
  "example_records =
     [\<lparr>fr_series_id = ''OEUS0600000011-000013'', fr_state_code = ''06'',
       fr_occupation_code = ''11-0000'', fr_datatype_code = ''13'',
       fr_year = ''2023'', fr_value = Some (Number 50000)\<rparr>,
      \<lparr>fr_series_id = ''OEUS0600000011-000004'', fr_state_code = ''06'',
       fr_occupation_code = ''11-0000'', fr_datatype_code = ''04'',
       fr_year = ''2024'', fr_value = Some NotANumber\<rparr>,
      \<lparr>fr_series_id = ''OEUS0600000011-000004'', fr_state_code = ''06'',
       fr_occupation_code = ''11-0000'', fr_datatype_code = ''04'',
       fr_year = ''2023'', fr_value = Some (Number 52000)\<rparr>,
      \<lparr>fr_series_id = ''OEUS0600000011-000004'', fr_state_code = ''06'',
       fr_occupation_code = ''11-0000'', fr_datatype_code = ''04'',
       fr_year = ''2022'', fr_value = Some (Number 51000)\<rparr>]"

section \<open>Properties of the generator\<close>

lemma foldl_gen_step:
  "foldl gen_step st ts =
     \<lparr>series_ids = series_ids st @ map id_of ts,
      series_metadata = series_metadata st @ map meta_of ts\<rparr>"
proof (induction ts arbitrary: st)
  case Nil
  show ?case by simp
next
  case (Cons t ts)
  obtain s oc d where t: "t = (s, oc, d)" by (cases t) auto
  show ?case unfolding t by (simp add: Cons.IH id_of_def meta_of_def Let_def)
qed

lemma generate_ids: "series_ids (generate G Oc D) = map id_of (product3 G Oc D)"
  by (simp add: generate_def foldl_gen_step)

lemma generate_metadata: "series_metadata (generate G Oc D) = map meta_of (product3 G Oc D)"
  by (simp add: generate_def foldl_gen_step)

lemma length_product3: "length (product3 G Oc D) = length G * length Oc * length D"
  by (simp add: product3_def)

lemma product3_nth:
  assumes "i < length G * length Oc * length D"
  shows "product3 G Oc D ! i =
    (G ! (i div (length Oc * length D)), Oc ! (i div length D mod length Oc), D ! (i mod length D))"
proof -
  let ?n = "length Oc * length D"
  from assms have i: "i < length G * length (List.product Oc D)"
    by (simp add: mult.assoc)
  from assms have pos: "0 < ?n"
    by (metis mult.assoc mult_0_right neq0_conv not_less0)
  then have "i mod ?n < length Oc * length D" by simp
  then have inner: "List.product Oc D ! (i mod ?n) =
      (Oc ! (i mod ?n div length D), D ! (i mod ?n mod length D))"
    by (rule product_nth)
  have "i mod (length D * length Oc) = length D * (i div length D mod length Oc) + i mod length D"
    by (rule mod_mult2_eq)
  then have "i mod ?n div length D =
      (length D * (i div length D mod length Oc) + i mod length D) div length D"
    by (simp add: mult.commute)
  also have "\<dots> = i div length D mod length Oc"
    using pos by simp
  finally have a: "i mod ?n div length D = i div length D mod length Oc" .
  have b: "i mod ?n mod length D = i mod length D"
    by (simp add: mod_mod_cancel)
  from product_nth [OF i] inner a b show ?thesis
    by (simp add: product3_def)
qed

text \<open>
  Claim C2. For code lists of lengths \<open>g\<close>, \<open>o\<close> and \<open>d\<close> the generator leaves
  exactly \<open>g * o * d\<close> identifiers and as many metadata records. Position \<open>i\<close> of both
  lists belongs to the \<open>i\<close>-th triple of the product with the geography code outermost,
  then the occupation code, then the measure-type code; the metadata record there carries
  the identifier at the same position, and the identifier is \<open>OEUS\<close>, the geography code,
  \<open>000000\<close>, the occupation code and the measure-type code, concatenated.
\<close>

theorem generator_product_order:
  "length (series_ids (generate G Oc D)) = length G * length Oc * length D \<and>
   length (series_metadata (generate G Oc D)) = length G * length Oc * length D \<and>
   (\<forall>i < length G * length Oc * length D.
      series_metadata (generate G Oc D) ! i =
        \<lparr>meta_series_id = series_ids (generate G Oc D) ! i,
         meta_state_code = G ! (i div (length Oc * length D)),
         meta_occupation_code = Oc ! (i div length D mod length Oc),
         meta_datatype_code = D ! (i mod length D)\<rparr> \<and>
      series_ids (generate G Oc D) ! i =
        ''OEUS'' @ G ! (i div (length Oc * length D)) @ ''000000'' @
          Oc ! (i div length D mod length Oc) @ D ! (i mod length D))"
proof (intro conjI allI impI)
  show "length (series_ids (generate G Oc D)) = length G * length Oc * length D"
    by (simp add: generate_ids length_product3)
  show "length (series_metadata (generate G Oc D)) = length G * length Oc * length D"
    by (simp add: generate_metadata length_product3)
next
  fix i assume i: "i < length G * length Oc * length D"
  then have len: "i < length (product3 G Oc D)" by (simp add: length_product3)
  show "series_metadata (generate G Oc D) ! i =
        \<lparr>meta_series_id = series_ids (generate G Oc D) ! i,
         meta_state_code = G ! (i div (length Oc * length D)),
         meta_occupation_code = Oc ! (i div length D mod length Oc),
         meta_datatype_code = D ! (i mod length D)\<rparr>"
    using len by (simp add: generate_ids generate_metadata product3_nth [OF i] meta_of_def id_of_def)
  show "series_ids (generate G Oc D) ! i =
        ''OEUS'' @ G ! (i div (length Oc * length D)) @ ''000000'' @
          Oc ! (i div length D mod length Oc) @ D ! (i mod length D)"
    using len by (simp add: generate_ids product3_nth [OF i] id_of_def make_series_id_def industry_code_def)
qed

text \<open>Scenario A of the specification: one state, one occupation, two measure types.\<close>

lemma scenario_A_ids:
  "series_ids (generate [''06''] [''11-0000''] [''04'', ''13'']) =
     [''OEUS0600000011-000004'', ''OEUS0600000011-000013'']"
  by (simp add: generate_def product3_def make_series_id_def industry_code_def Let_def)

theorem generator_product_order_witness:
  "(1::nat) < length [''06''] * length [''11-0000''] * length [''04'', ''13''] \<and>
   length (series_ids (generate [''06''] [''11-0000''] [''04'', ''13''])) = 2 \<and>
   series_metadata (generate [''06''] [''11-0000''] [''04'', ''13'']) ! 1 =
     \<lparr>meta_series_id = ''OEUS0600000011-000013'', meta_state_code = ''06'',
      meta_occupation_code = ''11-0000'', meta_datatype_code = ''13''\<rparr> \<and>
   series_ids (generate [''06''] [''11-0000''] [''04'', ''13'']) ! 1 = ''OEUS0600000011-000013''"
proof -
  have h: "(1::nat) < length [''06''] * length [''11-0000''] * length [''04'', ''13'']"
    by simp
  from generator_product_order [of "[''06'']" "[''11-0000'']" "[''04'', ''13'']"]
  have len: "length (series_ids (generate [''06''] [''11-0000''] [''04'', ''13''])) =
      length [''06''] * length [''11-0000''] * length [''04'', ''13'']"
    and at: "\<forall>i < length [''06''] * length [''11-0000''] * length [''04'', ''13''].
      series_metadata (generate [''06''] [''11-0000''] [''04'', ''13'']) ! i =
        \<lparr>meta_series_id = series_ids (generate [''06''] [''11-0000''] [''04'', ''13'']) ! i,
         meta_state_code = [''06''] ! (i div (length [''11-0000''] * length [''04'', ''13''])),
         meta_occupation_code = [''11-0000''] ! (i div length [''04'', ''13''] mod length [''11-0000'']),
         meta_datatype_code = [''04'', ''13''] ! (i mod length [''04'', ''13''])\<rparr> \<and>
      series_ids (generate [''06''] [''11-0000''] [''04'', ''13'']) ! i =
        ''OEUS'' @ [''06''] ! (i div (length [''11-0000''] * length [''04'', ''13''])) @ ''000000'' @
          [''11-0000''] ! (i div length [''04'', ''13''] mod length [''11-0000'']) @
          [''04'', ''13''] ! (i mod length [''04'', ''13''])"
    by blast+
  from at h have
    "series_metadata (generate [''06''] [''11-0000''] [''04'', ''13'']) ! 1 =
        \<lparr>meta_series_id = series_ids (generate [''06''] [''11-0000''] [''04'', ''13'']) ! 1,
         meta_state_code = [''06''] ! (1 div (length [''11-0000''] * length [''04'', ''13''])),
         meta_occupation_code = [''11-0000''] ! (1 div length [''04'', ''13''] mod length [''11-0000'']),
         meta_datatype_code = [''04'', ''13''] ! (1 mod length [''04'', ''13''])\<rparr> \<and>
      series_ids (generate [''06''] [''11-0000''] [''04'', ''13'']) ! 1 =
        ''OEUS'' @ [''06''] ! (1 div (length [''11-0000''] * length [''04'', ''13''])) @ ''000000'' @
          [''11-0000''] ! (1 div length [''04'', ''13''] mod length [''11-0000'']) @
          [''04'', ''13''] ! (1 mod length [''04'', ''13''])"
    by blast
  with len h show ?thesis by simp
qed

section \<open>Properties of the batch loop\<close>

declare batch_loop.simps [simp del]

lemma posted_append: "posted (es @ fs) = posted es @ posted fs"
  by (induction es rule: posted.induct) auto

lemma sleeps_append: "sleeps (es @ fs) = sleeps es + sleeps fs"
  by (induction es rule: sleeps.induct) auto

text \<open>The events one run of the loop appends, as a function of the start index.\<close>

lemma batch_loop_done: "\<not> i < length ids \<Longrightarrow> batch_loop api ids i st = st"
  by (subst batch_loop.simps) simp

lemma batch_loop_last:
  "i < length ids \<Longrightarrow> \<not> i + BATCH_SIZE < length ids \<Longrightarrow>
   batch_loop api ids i st =
     \<lparr>all_results = handle_response (api (i div BATCH_SIZE + 1) (take BATCH_SIZE (drop i ids)))
        (all_results st),
      events = events st @ [Post (i div BATCH_SIZE + 1) (take BATCH_SIZE (drop i ids))]\<rparr>"
  by (subst batch_loop.simps) (simp add: Let_def batch_loop_done)

lemma batch_loop_more:
  "i + BATCH_SIZE < length ids \<Longrightarrow>
   batch_loop api ids i st =
     batch_loop api ids (i + BATCH_SIZE)
       \<lparr>all_results = handle_response (api (i div BATCH_SIZE + 1) (take BATCH_SIZE (drop i ids)))
          (all_results st),
        events = events st @ [Post (i div BATCH_SIZE + 1) (take BATCH_SIZE (drop i ids)), Sleep]\<rparr>"
  by (subst batch_loop.simps) (simp add: Let_def)

lemma batch_loop_cases [case_names stop final continue]:
  assumes "\<not> i < length ids \<Longrightarrow> P"
    and "i < length ids \<Longrightarrow> \<not> i + BATCH_SIZE < length ids \<Longrightarrow> P"
    and "i + BATCH_SIZE < length ids \<Longrightarrow> P"
  shows P
  using assms by blast

lemma BATCH_SIZE_pos: "0 < BATCH_SIZE"
  by (simp add: BATCH_SIZE_def)

lemma take_drop_next: "take n (drop i xs) @ drop (i + n) xs = drop i xs"
  by (metis add.commute append_take_drop_id drop_drop)

lemma batch_loop_concat:
  "concat (posted (events (batch_loop api ids i st))) = concat (posted (events st)) @ drop i ids"
proof (induction "length ids - i" arbitrary: i st rule: less_induct)
  case less
  show ?case
  proof (cases rule: batch_loop_cases [of i ids])
    case stop
    then show ?thesis by (simp add: batch_loop_done)
  next
    case final
    then show ?thesis by (simp add: batch_loop_last posted_append)
  next
    case continue
    then have "length ids - (i + BATCH_SIZE) < length ids - i"
      using BATCH_SIZE_pos by simp
    from less [OF this] continue show ?thesis
      by (simp add: batch_loop_more posted_append take_drop_next)
  qed
qed

lemma batch_loop_sizes:
  "\<forall>b \<in> set (posted (events st)). 0 < length b \<and> length b \<le> BATCH_SIZE \<Longrightarrow>
   \<forall>b \<in> set (posted (events (batch_loop api ids i st))). 0 < length b \<and> length b \<le> BATCH_SIZE"
proof (induction "length ids - i" arbitrary: i st rule: less_induct)
  case less
  show ?case
  proof (cases rule: batch_loop_cases [of i ids])
    case stop
    then show ?thesis using less.prems by (simp add: batch_loop_done)
  next
    case final
    then show ?thesis using less.prems BATCH_SIZE_pos by (auto simp add: batch_loop_last posted_append)
  next
    case continue
    then have m: "length ids - (i + BATCH_SIZE) < length ids - i"
      using BATCH_SIZE_pos by simp
    show ?thesis
      unfolding batch_loop_more [OF continue]
      by (rule less.hyps [OF m]) (use less.prems continue BATCH_SIZE_pos in \<open>auto simp add: posted_append\<close>)
  qed
qed

text \<open>Every batch but the last is full.\<close>

lemma batch_loop_full:
  "\<forall>k. Suc k < length (posted (events st)) \<longrightarrow> length (posted (events st) ! k) = BATCH_SIZE \<Longrightarrow>
   (posted (events st) \<noteq> [] \<Longrightarrow> i < length ids \<Longrightarrow> length (last (posted (events st))) = BATCH_SIZE) \<Longrightarrow>
   \<forall>k. Suc k < length (posted (events (batch_loop api ids i st))) \<longrightarrow>
       length (posted (events (batch_loop api ids i st)) ! k) = BATCH_SIZE"
proof (induction "length ids - i" arbitrary: i st rule: less_induct)
  case less
  let ?b = "take BATCH_SIZE (drop i ids)"
  have ext: "\<forall>k. Suc k < length (posted (events st) @ [?b]) \<longrightarrow>
      length ((posted (events st) @ [?b]) ! k) = BATCH_SIZE" if "i < length ids"
  proof (intro allI impI)
    fix k assume k: "Suc k < length (posted (events st) @ [?b])"
    show "length ((posted (events st) @ [?b]) ! k) = BATCH_SIZE"
    proof (cases "Suc k < length (posted (events st))")
      case True
      with less.prems(1) show ?thesis by (simp add: nth_append)
    next
      case False
      with k have eq: "Suc k = length (posted (events st))" by simp
      then have ne: "posted (events st) \<noteq> []" by auto
      from eq have "posted (events st) ! k = last (posted (events st))"
        by (metis diff_Suc_1 last_conv_nth ne)
      with less.prems(2) [OF ne that] eq show ?thesis by (simp add: nth_append)
    qed
  qed
  show ?case
  proof (cases rule: batch_loop_cases [of i ids])
    case stop
    then show ?thesis using less.prems(1) by (simp add: batch_loop_done)
  next
    case final
    then show ?thesis using ext by (simp add: batch_loop_last posted_append)
  next
    case continue
    then have m: "length ids - (i + BATCH_SIZE) < length ids - i"
      using BATCH_SIZE_pos by simp
    from continue have lt: "i < length ids" by simp
    from continue have full: "length ?b = BATCH_SIZE" by simp
    show ?thesis
      unfolding batch_loop_more [OF continue]
      by (rule less.hyps [OF m]) (use ext [OF lt] full in \<open>simp_all add: posted_append\<close>)
  qed
qed


lemma batch_loop_count:
  "length (posted (events (batch_loop api ids i st))) =
     length (posted (events st)) + (length ids - i + 49) div 50"
proof (induction "length ids - i" arbitrary: i st rule: less_induct)
  case less
  show ?case
  proof (cases rule: batch_loop_cases [of i ids])
    case stop
    then show ?thesis by (simp add: batch_loop_done)
  next
    case final
    then have "(length ids - i + 49) div 50 = 1"
      by (simp add: BATCH_SIZE_def)
    with final show ?thesis by (simp add: batch_loop_last posted_append)
  next
    case continue
    then have m: "length ids - (i + BATCH_SIZE) < length ids - i"
      using BATCH_SIZE_pos by simp
    from continue have "(length ids - i + 49) div 50 = Suc ((length ids - (i + BATCH_SIZE) + 49) div 50)"
      by (simp add: BATCH_SIZE_def)
    with less [OF m] continue show ?thesis
      by (simp add: batch_loop_more posted_append)
  qed
qed

lemma batch_loop_sleeps:
  "sleeps (events (batch_loop api ids i st)) =
     sleeps (events st) + ((length ids - i + 49) div 50 - 1)"
proof (induction "length ids - i" arbitrary: i st rule: less_induct)
  case less
  show ?case
  proof (cases rule: batch_loop_cases [of i ids])
    case stop
    then show ?thesis by (simp add: batch_loop_done)
  next
    case final
    then have "(length ids - i + 49) div 50 = 1"
      by (simp add: BATCH_SIZE_def)
    with final show ?thesis by (simp add: batch_loop_last sleeps_append)
  next
    case continue
    then have m: "length ids - (i + BATCH_SIZE) < length ids - i"
      using BATCH_SIZE_pos by simp
    from continue have a: "(length ids - i + 49) div 50 = Suc ((length ids - (i + BATCH_SIZE) + 49) div 50)"
      by (simp add: BATCH_SIZE_def)
    from continue have b: "0 < (length ids - (i + BATCH_SIZE) + 49) div 50"
      by (simp add: BATCH_SIZE_def)
    from less [OF m] continue a b show ?thesis
      by (simp add: batch_loop_more sleeps_append)
  qed
qed

lemma one_delay_between_step:
  "es \<noteq> [] \<Longrightarrow> one_delay_between es \<Longrightarrow> one_delay_between (Post n b # Sleep # es)"
  by simp

lemma batch_loop_alternates:
  "\<exists>es. events (batch_loop api ids i st) = events st @ es \<and> one_delay_between es \<and>
        (i < length ids \<longrightarrow> es \<noteq> [])"
proof (induction "length ids - i" arbitrary: i st rule: less_induct)
  case less
  show ?case
  proof (cases rule: batch_loop_cases [of i ids])
    case stop
    then show ?thesis by (simp add: batch_loop_done)
  next
    case final
    then show ?thesis by (simp add: batch_loop_last)
  next
    case continue
    then have m: "length ids - (i + BATCH_SIZE) < length ids - i"
      using BATCH_SIZE_pos by simp
    let ?b = "take BATCH_SIZE (drop i ids)"
    let ?st = "\<lparr>all_results = handle_response (api (i div BATCH_SIZE + 1) ?b) (all_results st),
        events = events st @ [Post (i div BATCH_SIZE + 1) ?b, Sleep]\<rparr>"
    from less [OF m, of ?st] continue obtain es where
      es: "events (batch_loop api ids (i + BATCH_SIZE) ?st) = events ?st @ es"
        "one_delay_between es" "es \<noteq> []"
      by auto
    have "events (batch_loop api ids i st) = events st @ (Post (i div BATCH_SIZE + 1) ?b # Sleep # es)"
      using es(1) by (simp add: batch_loop_more [OF continue])
    moreover have "one_delay_between (Post (i div BATCH_SIZE + 1) ?b # Sleep # es)"
      using es(2,3) by simp
    ultimately show ?thesis by blast
  qed
qed

lemma fetch_all_120:
  assumes "length ids = 120"
  shows "events (fetch_all api ids) =
    [Post 1 (take 50 ids), Sleep, Post 2 (take 50 (drop 50 ids)), Sleep,
     Post 3 (take 50 (drop 100 ids))]"
proof -
  have a: "0 + BATCH_SIZE < length ids" using assms by (simp add: BATCH_SIZE_def)
  have b: "0 + BATCH_SIZE + BATCH_SIZE < length ids" using assms by (simp add: BATCH_SIZE_def)
  have c: "0 + BATCH_SIZE + BATCH_SIZE < length ids" using assms by (simp add: BATCH_SIZE_def)
  have d: "\<not> 0 + BATCH_SIZE + BATCH_SIZE + BATCH_SIZE < length ids"
    using assms by (simp add: BATCH_SIZE_def)
  show ?thesis
    unfolding fetch_all_def
    by (simp only: batch_loop_more [OF a] batch_loop_more [OF b] batch_loop_last [OF c d])
       (simp add: BATCH_SIZE_def)
qed

text \<open>
  Claim C3. The batches posted are contiguous in-order pieces of the identifier list
  (their concatenation is the list), each holds between 1 and 50 identifiers and every
  batch but the last holds exactly 50; there are \<open>\<lceil>n / 50\<rceil>\<close> of them. The loop sleeps
  once between two consecutive posts and never after the last one, so the sleeps are one
  fewer than the batches. For 120 identifiers the batches have sizes 50, 50 and 20 and
  the loop sleeps twice. This holds whatever the service answers.
\<close>

theorem batch_fetch_chunks:
  "concat (posted (events (fetch_all api ids))) = ids \<and>
   (\<forall>b \<in> set (posted (events (fetch_all api ids))). 0 < length b \<and> length b \<le> 50) \<and>
   (\<forall>k. Suc k < length (posted (events (fetch_all api ids))) \<longrightarrow>
        length (posted (events (fetch_all api ids)) ! k) = 50) \<and>
   length (posted (events (fetch_all api ids))) = (length ids + 49) div 50 \<and>
   sleeps (events (fetch_all api ids)) = length (posted (events (fetch_all api ids))) - 1 \<and>
   one_delay_between (events (fetch_all api ids)) \<and>
   (length ids = 120 \<longrightarrow>
      map length (posted (events (fetch_all api ids))) = [50, 50, 20] \<and>
      sleeps (events (fetch_all api ids)) = 2)"
proof (intro conjI impI)
  show "concat (posted (events (fetch_all api ids))) = ids"
    by (simp add: fetch_all_def batch_loop_concat)
  show "\<forall>b \<in> set (posted (events (fetch_all api ids))). 0 < length b \<and> length b \<le> 50"
    using batch_loop_sizes [of "\<lparr>all_results = [], events = []\<rparr>" api ids 0]
    by (simp add: fetch_all_def BATCH_SIZE_def)
  show "\<forall>k. Suc k < length (posted (events (fetch_all api ids))) \<longrightarrow>
        length (posted (events (fetch_all api ids)) ! k) = 50"
    using batch_loop_full [of "\<lparr>all_results = [], events = []\<rparr>" 0 ids api]
    by (simp add: fetch_all_def BATCH_SIZE_def)
  show "length (posted (events (fetch_all api ids))) = (length ids + 49) div 50"
    by (simp add: fetch_all_def batch_loop_count)
  show "sleeps (events (fetch_all api ids)) = length (posted (events (fetch_all api ids))) - 1"
    by (simp add: fetch_all_def batch_loop_count batch_loop_sleeps)
  show "one_delay_between (events (fetch_all api ids))"
    using batch_loop_alternates [of api ids 0 "\<lparr>all_results = [], events = []\<rparr>"]
    by (auto simp add: fetch_all_def)
next
  assume n: "length ids = 120"
  show "map length (posted (events (fetch_all api ids))) = [50, 50, 20]"
    using n by (simp add: fetch_all_120)
  show "sleeps (events (fetch_all api ids)) = 2"
    using n by (simp add: fetch_all_120)
qed

theorem batch_fetch_chunks_witness:
  "length (replicate 120 ''OEUS'') = 120 \<and>
   map length (posted (events (fetch_all (\<lambda>n batch. RequestException) (replicate 120 ''OEUS'')))) =
     [50, 50, 20] \<and>
   sleeps (events (fetch_all (\<lambda>n batch. RequestException) (replicate 120 ''OEUS''))) = 2 \<and>
   length (posted (events (fetch_all (\<lambda>n batch. RequestException) (replicate 120 ''OEUS'')))) = 3"
  using batch_fetch_chunks [of "\<lambda>n batch. RequestException" "replicate 120 ''OEUS''"]
  by simp

section \<open>Uniqueness of the generated identifiers\<close>

text \<open>
  The identifier is a plain concatenation, so codes of different lengths can produce the
  same string from different triples: \<open>1\<close> followed by \<open>13\<close> and \<open>11\<close> followed by \<open>3\<close>.
\<close>

lemma colliding_ids:
  "series_ids (generate [''06''] [''1'', ''11''] [''13'', ''3'']) =
     [''OEUS06000000113'', ''OEUS0600000013'', ''OEUS060000001113'', ''OEUS06000000113'']"
  by (simp add: generate_def product3_def make_series_id_def industry_code_def Let_def)

text \<open>
  Claim C8 as stated (unique codes in each of the three lists give pairwise distinct
  identifiers) fails for the lists above.
\<close>

theorem unique_codes_duplicate_ids:
  "\<not> (\<forall>G Oc D. distinct G \<and> distinct Oc \<and> distinct D \<longrightarrow>
        distinct (series_ids (generate G Oc D)))"
proof
  assume "\<forall>G Oc D. distinct G \<and> distinct Oc \<and> distinct D \<longrightarrow>
        distinct (series_ids (generate G Oc D))"
  then have "distinct [''06''] \<and> distinct [''1'', ''11''] \<and> distinct [''13'', ''3''] \<longrightarrow>
      distinct (series_ids (generate [''06''] [''1'', ''11''] [''13'', ''3'']))"
    by blast
  then show False
    by (simp add: colliding_ids)
qed

lemma distinct_product3:
  "distinct G \<Longrightarrow> distinct Oc \<Longrightarrow> distinct D \<Longrightarrow> distinct (product3 G Oc D)"
  by (simp add: product3_def distinct_product)

lemma set_product3:
  "set (product3 G Oc D) = {(s, oc, d). s \<in> set G \<and> oc \<in> set Oc \<and> d \<in> set D}"
  by (auto simp add: product3_def)

lemma make_series_id_inject:
  assumes "make_series_id s oc d = make_series_id s' oc' d'"
    and "length s = length s'" and "length oc = length oc'"
  shows "s = s' \<and> oc = oc' \<and> d = d'"
proof -
  from assms(1) have "s @ (industry_code @ oc @ d) = s' @ (industry_code @ oc' @ d')"
    by (simp add: make_series_id_def)
  with assms(2) have s: "s = s'" and rest: "oc @ d = oc' @ d'"
    by simp_all
  from rest assms(3) have "oc = oc' \<and> d = d'" by simp
  with s show ?thesis by simp
qed

text \<open>
  Claim C8, amended. When each of the three lists holds unique codes, all geography codes
  have one common length and all occupation codes have one common length, the generated
  identifiers are pairwise distinct.
\<close>

theorem fixed_width_ids_distinct:
  assumes "distinct G" and "distinct Oc" and "distinct D"
    and "\<forall>s \<in> set G. length s = w_geo"
    and "\<forall>oc \<in> set Oc. length oc = w_occ"
  shows "distinct (series_ids (generate G Oc D))"
proof -
  have "inj_on id_of (set (product3 G Oc D))"
  proof (rule inj_onI)
    fix t t' assume t: "t \<in> set (product3 G Oc D)" and t': "t' \<in> set (product3 G Oc D)"
      and eq: "id_of t = id_of t'"
    obtain s oc d where T: "t = (s, oc, d)" by (cases t) auto
    obtain s' oc' d' where T': "t' = (s', oc', d')" by (cases t') auto
    from t t' T T' assms(4,5) have "length s = length s'" "length oc = length oc'"
      by (auto simp add: set_product3)
    with eq T T' show "t = t'"
      using make_series_id_inject [of s oc d s' oc' d'] by (simp add: id_of_def)
  qed
  with distinct_product3 [OF assms(1-3)] show ?thesis
    by (simp add: generate_ids distinct_map)
qed

theorem fixed_width_ids_distinct_witness:
  "distinct [''06'', ''48''] \<and> distinct [''11-0000'', ''13-0000''] \<and> distinct [''04'', ''13''] \<and>
   map length [''06'', ''48''] = [2, 2] \<and>
   map length [''11-0000'', ''13-0000''] = [7, 7] \<and>
   distinct (series_ids (generate [''06'', ''48''] [''11-0000'', ''13-0000''] [''04'', ''13'']))"
proof -
  have a: "distinct [''06'', ''48'']" and b: "distinct [''11-0000'', ''13-0000'']"
    and c: "distinct [''04'', ''13'']" by simp_all
  have d: "\<forall>s \<in> set [''06'', ''48'']. length s = 2" by simp
  have e: "\<forall>oc \<in> set [''11-0000'', ''13-0000'']. length oc = 7" by simp
  from fixed_width_ids_distinct [OF a b c d e] a b c show ?thesis by simp
qed

section \<open>Properties of the reconciliation\<close>

text \<open>
  Both loops in closed form. The inner loop appends one record for every annual
  observation, in order, unless the conversion of one of them raises; the outer loop does
  so for every returned series that has metadata.
\<close>

lemma data_loop_eq:
  "data_loop pf sid m dps acc =
     (if list_all (parses pf) (annual dps)
      then Inr (acc @ map (flat_of pf sid m) (annual dps)) else Inl ValueError)"
proof (induction dps arbitrary: acc)
  case Nil
  show ?case by (simp add: annual_def)
next
  case (Cons dp dps)
  show ?case
  proof (cases "dp_period dp = ''A01''")
    case False
    with Cons.IH [of acc] show ?thesis by (simp add: annual_def)
  next
    case True
    show ?thesis
    proof (cases "parses pf dp")
      case False
      with True show ?thesis
        by (simp add: annual_def parses_def parse_value_def)
    next
      case p: True
      then have "parse_value pf (dp_value dp) = Inr (fr_value (flat_of pf sid m dp))"
        by (auto simp add: parses_def parse_value_def flat_of_def)
      moreover have "\<lparr>fr_series_id = sid,
          fr_state_code = meta_state_code m,
          fr_occupation_code = meta_occupation_code m,
          fr_datatype_code = meta_datatype_code m,
          fr_year = dp_year dp,
          fr_value = fr_value (flat_of pf sid m dp)\<rparr> = flat_of pf sid m dp"
        by (simp add: flat_of_def)
      ultimately show ?thesis
        using True p Cons.IH [of "acc @ [flat_of pf sid m dp]"]
        by (simp add: annual_def)
    qed
  qed
qed

lemma selected_Nil: "selected metas [] = []"
  by (simp add: selected_def)

lemma selected_Cons_None:
  "find_metadata metas (seriesID s) = None \<Longrightarrow> selected metas (s # rest) = selected metas rest"
  by (simp add: selected_def)

lemma selected_Cons_Some:
  "find_metadata metas (seriesID s) = Some m \<Longrightarrow>
   selected metas (s # rest) = map (\<lambda>dp. (seriesID s, m, dp)) (annual (data s)) @ selected metas rest"
  by (simp add: selected_def)

lemma selected_append: "selected metas (xs @ ys) = selected metas xs @ selected metas ys"
  by (simp add: selected_def)

lemma reconcile_loop_eq:
  "reconcile_loop pf metas results acc =
     (if list_all (\<lambda>t. parses pf (snd (snd t))) (selected metas results)
      then Inr (acc @ map (flat_of_selected pf) (selected metas results)) else Inl ValueError)"
proof (induction results arbitrary: acc)
  case Nil
  show ?case by (simp add: selected_Nil)
next
  case (Cons s rest)
  show ?case
  proof (cases "find_metadata metas (seriesID s)")
    case None
    then show ?thesis by (simp add: Cons.IH selected_Cons_None)
  next
    case (Some m)
    have a: "list_all (\<lambda>t. parses pf (snd (snd t))) (map (\<lambda>dp. (seriesID s, m, dp)) (annual (data s)))
        = list_all (parses pf) (annual (data s))"
      by (simp add: list_all_iff)
    have b: "map (flat_of_selected pf) (map (\<lambda>dp. (seriesID s, m, dp)) (annual (data s)))
        = map (flat_of pf (seriesID s) m) (annual (data s))"
      by (simp add: flat_of_selected_def)
    show ?thesis
      using Some by (simp add: Cons.IH selected_Cons_Some data_loop_eq a flat_of_selected_def)
  qed
qed

lemma reconcile_eq:
  "reconcile pf metas results =
     (if list_all (\<lambda>t. parses pf (snd (snd t))) (selected metas results)
      then Inr (map (flat_of_selected pf) (selected metas results)) else Inl ValueError)"
  by (simp add: reconcile_def reconcile_loop_eq)


lemma find_metadata_None:
  "(find_metadata metas sid = None) = (\<forall>m \<in> set metas. meta_series_id m \<noteq> sid)"
  by (auto simp add: find_metadata_def find_None_iff)

lemma selected_find:
  "(sid, m, dp) \<in> set (selected metas results) \<Longrightarrow> find_metadata metas sid = Some m"
  by (auto simp add: selected_def split: option.splits)

lemma selected_mem:
  "s \<in> set results \<Longrightarrow> find_metadata metas (seriesID s) = Some m \<Longrightarrow> dp \<in> set (data s) \<Longrightarrow>
   dp_period dp = ''A01'' \<Longrightarrow> (seriesID s, m, dp) \<in> set (selected metas results)"
  by (force simp add: selected_def annual_def)

text \<open>
  Claim C7. A returned series whose identifier occurs in no metadata record yields no
  flat record and raises nothing, whatever its observations are, and the loop goes on:
  the result for a list of series containing it is the result for the list without it.
\<close>

theorem unmatched_series_skipped:
  assumes "\<forall>m \<in> set metas. meta_series_id m \<noteq> seriesID s"
  shows "reconcile pf metas [s] = Inr [] \<and>
         reconcile pf metas (pre @ s # post) = reconcile pf metas (pre @ post)"
proof -
  from assms have none: "find_metadata metas (seriesID s) = None"
    by (simp add: find_metadata_None)
  then have "selected metas [s] = []"
    by (simp add: selected_Cons_None selected_Nil)
  moreover have "selected metas (pre @ s # post) = selected metas (pre @ post)"
    using none by (simp add: selected_append selected_Cons_None)
  ultimately show ?thesis by (simp add: reconcile_eq)
qed

text \<open>
  Claim C10. The lookup returns the metadata record at the least position whose
  identifier equals the returned one. Hence every flat record of a completed
  reconciliation carries the state, occupation and measure-type code of the earliest
  metadata record with its identifier, also when later records share that identifier.
\<close>

theorem first_match_metadata:
  "(find_metadata metas sid = Some m \<longleftrightarrow>
      (\<exists>i < length metas. metas ! i = m \<and> meta_series_id m = sid \<and>
         (\<forall>j < i. meta_series_id (metas ! j) \<noteq> sid))) \<and>
   (reconcile pf metas results = Inr recs \<longrightarrow>
      (\<forall>r \<in> set recs. \<exists>i < length metas.
         meta_series_id (metas ! i) = fr_series_id r \<and>
         (\<forall>j < i. meta_series_id (metas ! j) \<noteq> fr_series_id r) \<and>
         fr_state_code r = meta_state_code (metas ! i) \<and>
         fr_occupation_code r = meta_occupation_code (metas ! i) \<and>
         fr_datatype_code r = meta_datatype_code (metas ! i)))"
proof (intro conjI impI ballI)
  show "find_metadata metas sid = Some m \<longleftrightarrow>
      (\<exists>i < length metas. metas ! i = m \<and> meta_series_id m = sid \<and>
         (\<forall>j < i. meta_series_id (metas ! j) \<noteq> sid))"
    unfolding find_metadata_def find_Some_iff by auto
next
  fix r assume ok: "reconcile pf metas results = Inr recs" and r: "r \<in> set recs"
  from ok have "recs = map (flat_of_selected pf) (selected metas results)"
    by (simp add: reconcile_eq split: if_splits)
  with r obtain sid m dp where sel: "(sid, m, dp) \<in> set (selected metas results)"
    and r_eq: "r = flat_of pf sid m dp"
    by (auto simp add: flat_of_selected_def)
  from selected_find [OF sel] obtain i where i: "i < length metas" "metas ! i = m"
    "meta_series_id m = sid" "\<forall>j < i. meta_series_id (metas ! j) \<noteq> sid"
    unfolding find_metadata_def find_Some_iff by auto
  with r_eq show "\<exists>i < length metas.
         meta_series_id (metas ! i) = fr_series_id r \<and>
         (\<forall>j < i. meta_series_id (metas ! j) \<noteq> fr_series_id r) \<and>
         fr_state_code r = meta_state_code (metas ! i) \<and>
         fr_occupation_code r = meta_occupation_code (metas ! i) \<and>
         fr_datatype_code r = meta_datatype_code (metas ! i)"
    by (auto simp add: flat_of_def)
qed

lemma selected_origin:
  "(sid, m, dp) \<in> set (selected metas results) \<Longrightarrow>
   \<exists>s \<in> set results. seriesID s = sid \<and> find_metadata metas (seriesID s) = Some m \<and>
      dp \<in> set (data s) \<and> dp_period dp = ''A01''"
  by (auto simp add: selected_def annual_def split: option.splits)

text \<open>
  Claim C6. The reconciliation in closed form: it completes exactly when every annual
  observation of a series with metadata carries \<open>-\<close> or a value \<open>float\<close> converts, and
  then yields one flat record per such observation, in order. For every such observation:
  when its value is \<open>-\<close> the completed reconciliation holds its flat record with the
  value \<open>None\<close>; when its value is another string that \<open>float\<close> converts, it holds its
  flat record with the converted number; when its value is another string that \<open>float\<close>
  rejects, the reconciliation of the whole list ends with \<open>ValueError\<close> and yields no
  record at all. Nothing else raises: an error is always \<open>ValueError\<close> and always comes
  from such a value, never from \<open>-\<close>.
\<close>

theorem value_parsing:
  "reconcile pf metas results =
     (if list_all (\<lambda>t. parses pf (snd (snd t))) (selected metas results)
      then Inr (map (flat_of_selected pf) (selected metas results)) else Inl ValueError) \<and>
   (\<forall>s m dp. s \<in> set results \<and> find_metadata metas (seriesID s) = Some m \<and>
        dp \<in> set (data s) \<and> dp_period dp = ''A01'' \<longrightarrow>
      (dp_value dp = ''-'' \<longrightarrow>
         (\<forall>recs. reconcile pf metas results = Inr recs \<longrightarrow>
            \<lparr>fr_series_id = seriesID s, fr_state_code = meta_state_code m,
             fr_occupation_code = meta_occupation_code m,
             fr_datatype_code = meta_datatype_code m,
             fr_year = dp_year dp, fr_value = None\<rparr> \<in> set recs)) \<and>
      (\<forall>x. dp_value dp \<noteq> ''-'' \<and> pf (dp_value dp) = Some x \<longrightarrow>
         (\<forall>recs. reconcile pf metas results = Inr recs \<longrightarrow>
            \<lparr>fr_series_id = seriesID s, fr_state_code = meta_state_code m,
             fr_occupation_code = meta_occupation_code m,
             fr_datatype_code = meta_datatype_code m,
             fr_year = dp_year dp, fr_value = Some x\<rparr> \<in> set recs)) \<and>
      (dp_value dp \<noteq> ''-'' \<and> pf (dp_value dp) = None \<longrightarrow>
         reconcile pf metas results = Inl ValueError)) \<and>
   (\<forall>e. reconcile pf metas results = Inl e \<longrightarrow>
      e = ValueError \<and>
      (\<exists>s m dp. s \<in> set results \<and> find_metadata metas (seriesID s) = Some m \<and>
         dp \<in> set (data s) \<and> dp_period dp = ''A01'' \<and>
         dp_value dp \<noteq> ''-'' \<and> pf (dp_value dp) = None))"
proof (intro conjI allI impI)
  show "reconcile pf metas results =
     (if list_all (\<lambda>t. parses pf (snd (snd t))) (selected metas results)
      then Inr (map (flat_of_selected pf) (selected metas results)) else Inl ValueError)"
    by (rule reconcile_eq)
next
  fix s m dp recs
  assume sel: "s \<in> set results \<and> find_metadata metas (seriesID s) = Some m \<and>
        dp \<in> set (data s) \<and> dp_period dp = ''A01''"
    and dash: "dp_value dp = ''-''" and ok: "reconcile pf metas results = Inr recs"
  from sel have mem: "(seriesID s, m, dp) \<in> set (selected metas results)"
    by (simp add: selected_mem)
  from ok have "recs = map (flat_of_selected pf) (selected metas results)"
    by (simp add: reconcile_eq split: if_splits)
  with mem have "flat_of pf (seriesID s) m dp \<in> set recs"
    by (force simp add: flat_of_selected_def)
  with dash show "\<lparr>fr_series_id = seriesID s, fr_state_code = meta_state_code m,
             fr_occupation_code = meta_occupation_code m,
             fr_datatype_code = meta_datatype_code m,
             fr_year = dp_year dp, fr_value = None\<rparr> \<in> set recs"
    by (simp add: flat_of_def)
next
  fix s m dp x recs
  assume sel: "s \<in> set results \<and> find_metadata metas (seriesID s) = Some m \<and>
        dp \<in> set (data s) \<and> dp_period dp = ''A01''"
    and num: "dp_value dp \<noteq> ''-'' \<and> pf (dp_value dp) = Some x"
    and ok: "reconcile pf metas results = Inr recs"
  from sel have mem: "(seriesID s, m, dp) \<in> set (selected metas results)"
    by (simp add: selected_mem)
  from ok have "recs = map (flat_of_selected pf) (selected metas results)"
    by (simp add: reconcile_eq split: if_splits)
  with mem have "flat_of pf (seriesID s) m dp \<in> set recs"
    by (force simp add: flat_of_selected_def)
  with num show "\<lparr>fr_series_id = seriesID s, fr_state_code = meta_state_code m,
             fr_occupation_code = meta_occupation_code m,
             fr_datatype_code = meta_datatype_code m,
             fr_year = dp_year dp, fr_value = Some x\<rparr> \<in> set recs"
    by (simp add: flat_of_def)
next
  fix s m dp
  assume sel: "s \<in> set results \<and> find_metadata metas (seriesID s) = Some m \<and>
        dp \<in> set (data s) \<and> dp_period dp = ''A01''"
    and bad: "dp_value dp \<noteq> ''-'' \<and> pf (dp_value dp) = None"
  from sel have "(seriesID s, m, dp) \<in> set (selected metas results)"
    by (simp add: selected_mem)
  moreover from bad have "\<not> parses pf dp" by (simp add: parses_def)
  ultimately have "\<not> list_all (\<lambda>t. parses pf (snd (snd t))) (selected metas results)"
    by (force simp add: list_all_iff)
  then show "reconcile pf metas results = Inl ValueError"
    by (simp add: reconcile_eq)
next
  fix e assume err: "reconcile pf metas results = Inl e"
  then show "e = ValueError"
    by (simp add: reconcile_eq split: if_splits)
  from err have "\<not> list_all (\<lambda>t. parses pf (snd (snd t))) (selected metas results)"
    by (simp add: reconcile_eq split: if_splits)
  then obtain sid m dp where mem: "(sid, m, dp) \<in> set (selected metas results)"
    and np: "\<not> parses pf dp"
    by (auto simp add: list_all_iff)
  from selected_origin [OF mem] obtain s where "s \<in> set results"
    "find_metadata metas (seriesID s) = Some m" "dp \<in> set (data s)" "dp_period dp = ''A01''"
    by blast
  moreover from np have "dp_value dp \<noteq> ''-'' \<and> pf (dp_value dp) = None"
    by (simp add: parses_def)
  ultimately show "\<exists>s m dp. s \<in> set results \<and> find_metadata metas (seriesID s) = Some m \<and>
         dp \<in> set (data s) \<and> dp_period dp = ''A01'' \<and>
         dp_value dp \<noteq> ''-'' \<and> pf (dp_value dp) = None"
    by blast
qed

text \<open>The metadata of scenario A, and of the colliding codes above.\<close>

lemma scenario_A_metadata:
  "series_metadata (generate [''06''] [''11-0000''] [''04'', ''13'']) =
     [\<lparr>meta_series_id = ''OEUS0600000011-000004'', meta_state_code = ''06'',
       meta_occupation_code = ''11-0000'', meta_datatype_code = ''04''\<rparr>,
      \<lparr>meta_series_id = ''OEUS0600000011-000013'', meta_state_code = ''06'',
       meta_occupation_code = ''11-0000'', meta_datatype_code = ''13''\<rparr>]"
  by (simp add: generate_def product3_def make_series_id_def industry_code_def Let_def)

lemma colliding_metadata:
  "series_metadata (generate [''06''] [''1'', ''11''] [''13'', ''3'']) =
     [\<lparr>meta_series_id = ''OEUS06000000113'', meta_state_code = ''06'',
       meta_occupation_code = ''1'', meta_datatype_code = ''13''\<rparr>,
      \<lparr>meta_series_id = ''OEUS0600000013'', meta_state_code = ''06'',
       meta_occupation_code = ''1'', meta_datatype_code = ''3''\<rparr>,
      \<lparr>meta_series_id = ''OEUS060000001113'', meta_state_code = ''06'',
       meta_occupation_code = ''11'', meta_datatype_code = ''13''\<rparr>,
      \<lparr>meta_series_id = ''OEUS06000000113'', meta_state_code = ''06'',
       meta_occupation_code = ''11'', meta_datatype_code = ''3''\<rparr>]"
  by (simp add: generate_def product3_def make_series_id_def industry_code_def Let_def)

theorem unmatched_series_skipped_witness:
  "find_metadata (series_metadata (generate [''06''] [''11-0000''] [''04'', ''13'']))
     ''OEUS4800000011-000004'' = None \<and>
   reconcile (\<lambda>v. None :: nat option)
     (series_metadata (generate [''06''] [''11-0000''] [''04'', ''13'']))
     [\<lparr>seriesID = ''OEUS4800000011-000004'',
       data = [\<lparr>dp_period = ''A01'', dp_year = ''2023'', dp_value = ''n/a''\<rparr>]\<rparr>] = Inr [] \<and>
   reconcile (\<lambda>v. None :: nat option)
     (series_metadata (generate [''06''] [''11-0000''] [''04'', ''13'']))
     ([] @ \<lparr>seriesID = ''OEUS4800000011-000004'',
       data = [\<lparr>dp_period = ''A01'', dp_year = ''2023'', dp_value = ''n/a''\<rparr>]\<rparr> #
      [\<lparr>seriesID = ''OEUS0600000011-000013'',
        data = [\<lparr>dp_period = ''A01'', dp_year = ''2023'', dp_value = ''-''\<rparr>]\<rparr>]) =
     Inr [\<lparr>fr_series_id = ''OEUS0600000011-000013'', fr_state_code = ''06'',
           fr_occupation_code = ''11-0000'', fr_datatype_code = ''13'',
           fr_year = ''2023'', fr_value = None\<rparr>]"
proof -
  let ?metas = "series_metadata (generate [''06''] [''11-0000''] [''04'', ''13''])"
  let ?s = "\<lparr>seriesID = ''OEUS4800000011-000004'',
       data = [\<lparr>dp_period = ''A01'', dp_year = ''2023'', dp_value = ''n/a''\<rparr>]\<rparr>"
  let ?post = "[\<lparr>seriesID = ''OEUS0600000011-000013'',
        data = [\<lparr>dp_period = ''A01'', dp_year = ''2023'', dp_value = ''-''\<rparr>]\<rparr>]"
  have h: "\<forall>m \<in> set ?metas. meta_series_id m \<noteq> seriesID ?s"
    by (simp add: scenario_A_metadata)
  have n: "find_metadata ?metas ''OEUS4800000011-000004'' = None"
    by (simp add: scenario_A_metadata find_metadata_def)
  have rest: "reconcile (\<lambda>v. None :: nat option) ?metas ([] @ ?post) =
     Inr [\<lparr>fr_series_id = ''OEUS0600000011-000013'', fr_state_code = ''06'',
           fr_occupation_code = ''11-0000'', fr_datatype_code = ''13'',
           fr_year = ''2023'', fr_value = None\<rparr>]"
    by (simp add: scenario_A_metadata reconcile_def find_metadata_def parse_value_def)
  from unmatched_series_skipped [OF h, of "\<lambda>v. None :: nat option" "[]" ?post] n rest
  show ?thesis by simp
qed

theorem first_match_metadata_witness:
  "find_metadata (series_metadata (generate [''06''] [''1'', ''11''] [''13'', ''3'']))
     ''OEUS06000000113'' =
     Some \<lparr>meta_series_id = ''OEUS06000000113'', meta_state_code = ''06'',
           meta_occupation_code = ''1'', meta_datatype_code = ''13''\<rparr> \<and>
   series_metadata (generate [''06''] [''1'', ''11''] [''13'', ''3'']) ! 3 =
     \<lparr>meta_series_id = ''OEUS06000000113'', meta_state_code = ''06'',
      meta_occupation_code = ''11'', meta_datatype_code = ''3''\<rparr> \<and>
   reconcile (\<lambda>v. None :: nat option)
     (series_metadata (generate [''06''] [''1'', ''11''] [''13'', ''3'']))
     [\<lparr>seriesID = ''OEUS06000000113'',
       data = [\<lparr>dp_period = ''A01'', dp_year = ''2023'', dp_value = ''-''\<rparr>]\<rparr>] =
     Inr [\<lparr>fr_series_id = ''OEUS06000000113'', fr_state_code = ''06'',
           fr_occupation_code = ''1'', fr_datatype_code = ''13'',
           fr_year = ''2023'', fr_value = None\<rparr>]"
proof -
  let ?metas = "series_metadata (generate [''06''] [''1'', ''11''] [''13'', ''3''])"
  let ?m = "\<lparr>meta_series_id = ''OEUS06000000113'', meta_state_code = ''06'',
           meta_occupation_code = ''1'', meta_datatype_code = ''13''\<rparr>"
  have "(0::nat) < length ?metas \<and> ?metas ! 0 = ?m \<and> meta_series_id ?m = ''OEUS06000000113'' \<and>
      (\<forall>j < (0::nat). meta_series_id (?metas ! j) \<noteq> ''OEUS06000000113'')"
    by (simp add: colliding_metadata)
  then have ex: "\<exists>i < length ?metas. ?metas ! i = ?m \<and> meta_series_id ?m = ''OEUS06000000113'' \<and>
      (\<forall>j < i. meta_series_id (?metas ! j) \<noteq> ''OEUS06000000113'')"
    by blast
  from first_match_metadata [of ?metas "''OEUS06000000113''" ?m] ex
  have "find_metadata ?metas ''OEUS06000000113'' = Some ?m"
    by blast
  moreover have "?metas ! 3 = \<lparr>meta_series_id = ''OEUS06000000113'', meta_state_code = ''06'',
      meta_occupation_code = ''11'', meta_datatype_code = ''3''\<rparr>"
    by (simp add: colliding_metadata)
  moreover have "reconcile (\<lambda>v. None :: nat option) ?metas
     [\<lparr>seriesID = ''OEUS06000000113'',
       data = [\<lparr>dp_period = ''A01'', dp_year = ''2023'', dp_value = ''-''\<rparr>]\<rparr>] =
     Inr [\<lparr>fr_series_id = ''OEUS06000000113'', fr_state_code = ''06'',
           fr_occupation_code = ''1'', fr_datatype_code = ''13'',
           fr_year = ''2023'', fr_value = None\<rparr>]"
    by (simp add: colliding_metadata reconcile_def find_metadata_def parse_value_def)
  ultimately show ?thesis by blast
qed


theorem value_parsing_witness:
  "reconcile (\<lambda>v. if v = ''52000'' then Some (52000::nat) else None)
     (series_metadata (generate [''06''] [''11-0000''] [''04'', ''13'']))
     [\<lparr>seriesID = ''OEUS0600000011-000004'',
       data = [\<lparr>dp_period = ''A01'', dp_year = ''2023'', dp_value = ''-''\<rparr>]\<rparr>] =
     Inr [\<lparr>fr_series_id = ''OEUS0600000011-000004'', fr_state_code = ''06'',
           fr_occupation_code = ''11-0000'', fr_datatype_code = ''04'',
           fr_year = ''2023'', fr_value = None\<rparr>] \<and>
   reconcile (\<lambda>v. if v = ''52000'' then Some (52000::nat) else None)
     (series_metadata (generate [''06''] [''11-0000''] [''04'', ''13'']))
     [\<lparr>seriesID = ''OEUS0600000011-000004'',
       data = [\<lparr>dp_period = ''A01'', dp_year = ''2023'', dp_value = ''52000''\<rparr>]\<rparr>] =
     Inr [\<lparr>fr_series_id = ''OEUS0600000011-000004'', fr_state_code = ''06'',
           fr_occupation_code = ''11-0000'', fr_datatype_code = ''04'',
           fr_year = ''2023'', fr_value = Some 52000\<rparr>] \<and>
   reconcile (\<lambda>v. if v = ''52000'' then Some (52000::nat) else None)
     (series_metadata (generate [''06''] [''11-0000''] [''04'', ''13'']))
     [\<lparr>seriesID = ''OEUS0600000011-000004'',
       data = [\<lparr>dp_period = ''A01'', dp_year = ''2023'', dp_value = ''52000''\<rparr>]\<rparr>,
      \<lparr>seriesID = ''OEUS0600000011-000013'',
       data = [\<lparr>dp_period = ''A01'', dp_year = ''2023'', dp_value = ''n/a''\<rparr>]\<rparr>] =
     Inl ValueError"
proof -
  let ?pf = "\<lambda>v. if v = ''52000'' then Some (52000::nat) else None"
  let ?metas = "series_metadata (generate [''06''] [''11-0000''] [''04'', ''13''])"
  let ?m04 = "\<lparr>meta_series_id = ''OEUS0600000011-000004'', meta_state_code = ''06'',
      meta_occupation_code = ''11-0000'', meta_datatype_code = ''04''\<rparr>"
  let ?m13 = "\<lparr>meta_series_id = ''OEUS0600000011-000013'', meta_state_code = ''06'',
      meta_occupation_code = ''11-0000'', meta_datatype_code = ''13''\<rparr>"
  let ?dash = "\<lparr>dp_period = ''A01'', dp_year = ''2023'', dp_value = ''-''\<rparr>"
  let ?num = "\<lparr>dp_period = ''A01'', dp_year = ''2023'', dp_value = ''52000''\<rparr>"
  let ?bad = "\<lparr>dp_period = ''A01'', dp_year = ''2023'', dp_value = ''n/a''\<rparr>"
  let ?s_dash = "\<lparr>seriesID = ''OEUS0600000011-000004'', data = [?dash]\<rparr>"
  let ?s_num = "\<lparr>seriesID = ''OEUS0600000011-000004'', data = [?num]\<rparr>"
  let ?s_bad = "\<lparr>seriesID = ''OEUS0600000011-000013'', data = [?bad]\<rparr>"
  let ?r_none = "\<lparr>fr_series_id = ''OEUS0600000011-000004'', fr_state_code = ''06'',
           fr_occupation_code = ''11-0000'', fr_datatype_code = ''04'',
           fr_year = ''2023'', fr_value = (None :: nat option)\<rparr>"
  let ?r_num = "\<lparr>fr_series_id = ''OEUS0600000011-000004'', fr_state_code = ''06'',
           fr_occupation_code = ''11-0000'', fr_datatype_code = ''04'',
           fr_year = ''2023'', fr_value = Some (52000::nat)\<rparr>"
  have f04: "find_metadata ?metas ''OEUS0600000011-000004'' = Some ?m04"
    and f13: "find_metadata ?metas ''OEUS0600000011-000013'' = Some ?m13"
    by (simp_all add: scenario_A_metadata find_metadata_def)
  txt \<open>The sentinel: no error is possible, and the record with the absent value is there.\<close>
  from value_parsing [of ?pf ?metas "[?s_dash]"]
  have closed1: "reconcile ?pf ?metas [?s_dash] =
      (if list_all (\<lambda>t. parses ?pf (snd (snd t))) (selected ?metas [?s_dash])
       then Inr (map (flat_of_selected ?pf) (selected ?metas [?s_dash])) else Inl ValueError)"
    and member1: "\<forall>s m dp. s \<in> set [?s_dash] \<and> find_metadata ?metas (seriesID s) = Some m \<and>
        dp \<in> set (data s) \<and> dp_period dp = ''A01'' \<longrightarrow>
      (dp_value dp = ''-'' \<longrightarrow>
         (\<forall>recs. reconcile ?pf ?metas [?s_dash] = Inr recs \<longrightarrow>
            \<lparr>fr_series_id = seriesID s, fr_state_code = meta_state_code m,
             fr_occupation_code = meta_occupation_code m,
             fr_datatype_code = meta_datatype_code m,
             fr_year = dp_year dp, fr_value = None\<rparr> \<in> set recs))"
    by blast+
  from closed1 have one: "reconcile ?pf ?metas [?s_dash] = Inr [?r_none]"
    by (simp add: selected_def f04 annual_def parses_def flat_of_selected_def flat_of_def)
  from member1 have "?s_dash \<in> set [?s_dash] \<and>
        find_metadata ?metas (seriesID ?s_dash) = Some ?m04 \<and>
        ?dash \<in> set (data ?s_dash) \<and> dp_period ?dash = ''A01'' \<longrightarrow>
      (dp_value ?dash = ''-'' \<longrightarrow>
         (\<forall>recs. reconcile ?pf ?metas [?s_dash] = Inr recs \<longrightarrow>
            \<lparr>fr_series_id = seriesID ?s_dash, fr_state_code = meta_state_code ?m04,
             fr_occupation_code = meta_occupation_code ?m04,
             fr_datatype_code = meta_datatype_code ?m04,
             fr_year = dp_year ?dash, fr_value = None\<rparr> \<in> set recs))"
    by blast
  with f04 one have "?r_none \<in> set [?r_none]" by simp
  txt \<open>A number.\<close>
  from value_parsing [of ?pf ?metas "[?s_num]"]
  have "reconcile ?pf ?metas [?s_num] =
      (if list_all (\<lambda>t. parses ?pf (snd (snd t))) (selected ?metas [?s_num])
       then Inr (map (flat_of_selected ?pf) (selected ?metas [?s_num])) else Inl ValueError)"
    by blast
  then have two: "reconcile ?pf ?metas [?s_num] = Inr [?r_num]"
    by (simp add: selected_def f04 annual_def parses_def flat_of_selected_def flat_of_def)
  txt \<open>A value that is neither: the whole reconciliation ends with the error.\<close>
  from value_parsing [of ?pf ?metas "[?s_num, ?s_bad]"]
  have "\<forall>s m dp. s \<in> set [?s_num, ?s_bad] \<and> find_metadata ?metas (seriesID s) = Some m \<and>
        dp \<in> set (data s) \<and> dp_period dp = ''A01'' \<longrightarrow>
      (dp_value dp \<noteq> ''-'' \<and> ?pf (dp_value dp) = None \<longrightarrow>
         reconcile ?pf ?metas [?s_num, ?s_bad] = Inl ValueError)"
    by blast
  then have "?s_bad \<in> set [?s_num, ?s_bad] \<and> find_metadata ?metas (seriesID ?s_bad) = Some ?m13 \<and>
        ?bad \<in> set (data ?s_bad) \<and> dp_period ?bad = ''A01'' \<longrightarrow>
      (dp_value ?bad \<noteq> ''-'' \<and> ?pf (dp_value ?bad) = None \<longrightarrow>
         reconcile ?pf ?metas [?s_num, ?s_bad] = Inl ValueError)"
    by blast
  with f13 have three: "reconcile ?pf ?metas [?s_num, ?s_bad] = Inl ValueError"
    by simp
  from one two three show ?thesis by blast
qed

text \<open>
  Claim C1 does not hold of the loop of lines 103-112: it has no \<open>break\<close>, so a series
  with two annual observations contributes two flat records, not only the first.
\<close>

theorem two_annual_observations_two_records:
  "reconcile (\<lambda>v. if v = ''52000'' then Some (52000::nat)
                   else if v = ''50000'' then Some 50000 else None)
     (series_metadata (generate [''06''] [''11-0000''] [''04'', ''13'']))
     [\<lparr>seriesID = ''OEUS0600000011-000004'',
       data = [\<lparr>dp_period = ''A01'', dp_year = ''2023'', dp_value = ''52000''\<rparr>,
               \<lparr>dp_period = ''A01'', dp_year = ''2022'', dp_value = ''50000''\<rparr>]\<rparr>] =
     Inr [\<lparr>fr_series_id = ''OEUS0600000011-000004'', fr_state_code = ''06'',
           fr_occupation_code = ''11-0000'', fr_datatype_code = ''04'',
           fr_year = ''2023'', fr_value = Some 52000\<rparr>,
          \<lparr>fr_series_id = ''OEUS0600000011-000004'', fr_state_code = ''06'',
           fr_occupation_code = ''11-0000'', fr_datatype_code = ''04'',
           fr_year = ''2022'', fr_value = Some 50000\<rparr>]"
  by (simp add: scenario_A_metadata reconcile_def find_metadata_def parse_value_def)

section \<open>Properties of the pandas stages\<close>

text \<open>The labelled frame in closed form, and what happens to the empty frame.\<close>

lemma map_zip_same:
  "map (\<lambda>(a, b). h a b) (zip (map f xs) (map g xs)) = map (\<lambda>x. h (f x) (g x)) xs"
  by (induction xs) auto

lemma index_of_flat [simp]:
  "index_of ''state_code'' flat_columns = Some 1"
  "index_of ''occupation_code'' flat_columns = Some 2"
  "index_of ''datatype_code'' flat_columns = Some 3"
  "index_of ''state_name'' flat_columns = None"
  "index_of ''occupation_name'' flat_columns = None"
  "index_of ''datatype_name'' flat_columns = None"
  by (simp_all add: flat_columns_def)

lemma series_map_codes:
  "series_map names (map (\<lambda>r. Str (f r)) recs) = map (\<lambda>r. label_cell names (f r)) recs"
  by (simp add: series_map_def label_cell_def)

lemma add_labels_empty: "add_labels codes (DataFrame []) = Inl KeyError"
  by (simp add: add_labels_def DataFrame_def getitem_def)

lemma add_labels_DataFrame:
  assumes "recs \<noteq> []"
  shows "add_labels codes (DataFrame recs) =
    Inr \<lparr>df_columns = labelled_columns, df_rows = map (labelled_row codes) recs\<rparr>"
proof -
  let ?s = "\<lambda>r. label_cell (state_names codes) (fr_state_code r) :: 'a cell"
  let ?o = "\<lambda>r. label_cell (occupation_names codes) (fr_occupation_code r) :: 'a cell"
  let ?d = "\<lambda>r. label_cell (datatype_names codes) (fr_datatype_code r) :: 'a cell"
  let ?df = "\<lparr>df_columns = flat_columns, df_rows = map flat_row recs\<rparr>"
  have df: "DataFrame recs = ?df" using assms by (simp add: DataFrame_def)
  have g1: "getitem ?df ''state_code'' = Inr (map (\<lambda>r. Str (fr_state_code r)) recs)"
    by (simp add: getitem_def flat_row_def)
  let ?df1 = "\<lparr>df_columns = flat_columns @ [''state_name''],
      df_rows = map (\<lambda>r. flat_row r @ [?s r]) recs\<rparr>"
  have s1: "setitem ?df ''state_name'' (map ?s recs) = ?df1"
    by (simp add: setitem_def map_zip_same)
  have i2: "index_of ''occupation_code'' (flat_columns @ [''state_name'']) = Some 2"
    "index_of ''occupation_name'' (flat_columns @ [''state_name'']) = None"
    by (simp_all add: flat_columns_def)
  have g2: "getitem ?df1 ''occupation_code'' = Inr (map (\<lambda>r. Str (fr_occupation_code r)) recs)"
    by (simp add: getitem_def i2 flat_row_def)
  let ?df2 = "\<lparr>df_columns = flat_columns @ [''state_name'', ''occupation_name''],
      df_rows = map (\<lambda>r. flat_row r @ [?s r, ?o r]) recs\<rparr>"
  have s2: "setitem ?df1 ''occupation_name'' (map ?o recs) = ?df2"
    by (simp add: setitem_def i2 map_zip_same)
  have i3: "index_of ''datatype_code'' (flat_columns @ [''state_name'', ''occupation_name'']) = Some 3"
    "index_of ''datatype_name'' (flat_columns @ [''state_name'', ''occupation_name'']) = None"
    by (simp_all add: flat_columns_def)
  have g3: "getitem ?df2 ''datatype_code'' = Inr (map (\<lambda>r. Str (fr_datatype_code r)) recs)"
    by (simp add: getitem_def i3 flat_row_def)
  have s3: "setitem ?df2 ''datatype_name'' (map ?d recs) =
      \<lparr>df_columns = labelled_columns, df_rows = map (labelled_row codes) recs\<rparr>"
    by (simp add: setitem_def i3 map_zip_same labelled_columns_def labelled_row_def)
  show ?thesis
    unfolding add_labels_def df
    by (simp only: g1 sum.case Let_def series_map_codes s1 g2 s2 g3 s3)
qed


lemma index_of_labelled [simp]:
  "index_of ''value'' labelled_columns = Some 5"
  "index_of ''state_name'' labelled_columns = Some 6"
  "index_of ''occupation_name'' labelled_columns = Some 7"
  "index_of ''datatype_name'' labelled_columns = Some 8"
  by (simp_all add: labelled_columns_def flat_columns_def)

lemma labelled_row_nth [simp]:
  "labelled_row codes r ! 5 = value_cell r"
  "labelled_row codes r ! 6 = label_cell (state_names codes) (fr_state_code r)"
  "labelled_row codes r ! 7 = label_cell (occupation_names codes) (fr_occupation_code r)"
  "labelled_row codes r ! 8 = label_cell (datatype_names codes) (fr_datatype_code r)"
  by (simp_all add: labelled_row_def flat_row_def)

lemma key_of_labels:
  "key_of (label_cell (state_names codes) (fr_state_code r) :: 'a cell)
          (label_cell (occupation_names codes) (fr_occupation_code r))
          (label_cell (datatype_names codes) (fr_datatype_code r)) = names_of codes r"
  by (simp add: label_cell_def names_of_def split: option.splits)

lemma pivot_entries_map:
  "pivot_entries (map a recs) (map b recs) (map c recs) (map v recs) =
     List.map_filter (\<lambda>r. map_option (\<lambda>k. (k, v r)) (key_of (a r) (b r) (c r))) recs"
  by (induction recs) (auto simp add: map_filter_simps split: option.splits)


lemma pivot_table_labelled:
  "pivot_table \<lparr>df_columns = labelled_columns, df_rows = map (labelled_row codes) recs\<rparr> =
     (let entries = entries_of codes recs;
          keys = group_keys entries;
          index = sort (remdups (map (\<lambda>(s, oc, d). (s, oc)) keys));
          cols = sort (remdups (map (\<lambda>(s, oc, d). d) keys))
      in if ''state_name'' \<in> set cols \<or> ''occupation_name'' \<in> set cols then Inl ValueError
         else Inr \<lparr>df_columns = ''state_name'' # ''occupation_name'' # cols,
                   df_rows = map (\<lambda>p. Str (fst p) # Str (snd p) #
                                        map (wide_cell entries p) cols) index\<rparr>)"
proof -
  let ?df = "\<lparr>df_columns = labelled_columns, df_rows = map (labelled_row codes) recs\<rparr>"
  have g: "getitem ?df ''state_name'' =
        Inr (map (\<lambda>r. label_cell (state_names codes) (fr_state_code r)) recs)"
      "getitem ?df ''occupation_name'' =
        Inr (map (\<lambda>r. label_cell (occupation_names codes) (fr_occupation_code r)) recs)"
      "getitem ?df ''datatype_name'' =
        Inr (map (\<lambda>r. label_cell (datatype_names codes) (fr_datatype_code r)) recs)"
      "getitem ?df ''value'' = Inr (map value_cell recs)"
    by (simp_all add: getitem_def)
  show ?thesis
    unfolding pivot_table_def
    by (simp only: g sum.case pivot_entries_map key_of_labels entries_of_def)
qed

lemma entries_valued:
  "filter (\<lambda>e. snd e \<noteq> NaN) (entries_of codes recs) =
     map (\<lambda>e. (fst e, Num (snd e))) (valued codes recs)"
  by (induction recs)
     (auto simp add: entries_of_def valued_def map_filter_simps value_cell_def
        split: option.splits py_float.splits)

lemma find_map: "List.find P (map f xs) = map_option f (List.find (\<lambda>x. P (f x)) xs)"
  by (induction xs) auto

lemma find_filter: "List.find P (filter Q xs) = List.find (\<lambda>x. Q x \<and> P x) xs"
  by (induction xs) auto

lemma agg_first_valued:
  "agg_first (entries_of codes recs) k =
     map_option (\<lambda>e. Num (snd e)) (List.find (\<lambda>e. fst e = k) (valued codes recs))"
proof -
  have "agg_first (entries_of codes recs) k =
      map_option snd (List.find (\<lambda>e. fst e = k)
        (filter (\<lambda>e. snd e \<noteq> NaN) (entries_of codes recs)))"
    by (simp add: agg_first_def find_map find_filter conj_commute)
  also have "\<dots> = map_option (\<lambda>e. Num (snd e)) (List.find (\<lambda>e. fst e = k) (valued codes recs))"
    by (simp add: entries_valued find_map option.map_comp comp_def)
  finally show ?thesis .
qed

lemma wide_cell_first_value:
  "wide_cell (entries_of codes recs) p d = first_value codes recs (fst p, snd p, d)"
  by (simp add: wide_cell_def first_value_def agg_first_valued split: option.splits)

lemma valued_keys_entries:
  "fst ` set (valued codes recs) \<subseteq> fst ` set (entries_of codes recs)"
  by (induction recs)
     (auto simp add: valued_def entries_of_def map_filter_simps
        split: option.splits py_float.splits)

lemma set_group_keys:
  "set (group_keys (entries_of codes recs)) = fst ` set (valued codes recs)"
proof -
  let ?E = "entries_of codes recs" and ?V = "valued codes recs"
  have agg: "(agg_first ?E k \<noteq> None) = (k \<in> fst ` set ?V)" for k
    by (force simp add: agg_first_valued find_None_iff)
  have agg': "(\<exists>y. agg_first ?E k = Some y) = (k \<in> fst ` set ?V)" for k
    using agg [of k] by auto
  have "set (group_keys ?E) = fst ` {e \<in> set ?E. fst e \<in> fst ` set ?V}"
    by (simp add: group_keys_def agg')
  also have "\<dots> = fst ` set ?E \<inter> fst ` set ?V"
    by (rule set_eqI) (simp add: image_iff Bex_def, blast)
  also have "\<dots> = fst ` set ?V"
    using valued_keys_entries [of codes recs] by blast
  finally show ?thesis .
qed


lemma shape_and_save_empty: "shape_and_save codes [] = Inl KeyError"
  by (simp add: shape_and_save_def add_labels_empty)

lemma shape_and_save_eq:
  assumes "recs \<noteq> []"
  shows "shape_and_save codes recs =
     (let keys = group_keys (entries_of codes recs);
          index = sort (remdups (map (\<lambda>(s, oc, d). (s, oc)) keys));
          cols = sort (remdups (map (\<lambda>(s, oc, d). d) keys))
      in if ''state_name'' \<in> set cols \<or> ''occupation_name'' \<in> set cols then Inl ValueError
         else Inr \<lparr>df_wide =
                     \<lparr>df_columns = ''state_name'' # ''occupation_name'' # cols,
                      df_rows = map (\<lambda>p. Str (fst p) # Str (snd p) #
                                  map (\<lambda>d. first_value codes recs (fst p, snd p, d)) cols) index\<rparr>,
                   output_file =
                     \<lparr>csv_header = labelled_columns,
                      csv_lines = map (labelled_row codes) recs\<rparr>\<rparr>)"
  by (simp add: shape_and_save_def add_labels_DataFrame [OF assms] pivot_table_labelled
      Let_def to_csv_def wide_cell_first_value)

lemma find_first_occurrence:
  "k \<notin> fst ` set pre \<Longrightarrow> List.find (\<lambda>e. fst e = k) (pre @ (k, x) # post) = Some (k, x)"
  by (induction pre) auto

lemma first_value_absent:
  "k \<notin> fst ` set (valued codes recs) \<Longrightarrow> first_value codes recs k = NaN"
proof -
  assume "k \<notin> fst ` set (valued codes recs)"
  then have "List.find (\<lambda>e. fst e = k) (valued codes recs) = None"
    by (force simp add: find_None_iff)
  then show ?thesis by (simp add: first_value_def)
qed

lemma first_value_first:
  "valued codes recs = pre @ (k, x) # post \<Longrightarrow> k \<notin> fst ` set pre \<Longrightarrow>
   first_value codes recs k = Num x"
  by (simp add: first_value_def find_first_occurrence)

text \<open>
  Claim C9, amended. When labelling and reshaping complete, the wide table has the two
  name columns followed by one column per distinct measure-type name, and one row per
  distinct pair of state name and occupation name, both counted over the flat records
  that have all three names and a value that is neither \<open>None\<close> nor not-a-number (the
  list \<open>valued\<close>). The cell of a pair and a measure type holds the value of the first
  such record in record order, and is empty when there is none; the row stays.
\<close>

theorem wide_report_shape:
  assumes "shape_and_save codes recs = Inr out"
  shows "\<exists>index cols.
     df_columns (df_wide out) = ''state_name'' # ''occupation_name'' # cols \<and>
     df_rows (df_wide out) =
       map (\<lambda>p. Str (fst p) # Str (snd p) #
                 map (\<lambda>d. first_value codes recs (fst p, snd p, d)) cols) index \<and>
     distinct index \<and>
     set index = (\<lambda>e. (fst (fst e), fst (snd (fst e)))) ` set (valued codes recs) \<and>
     distinct cols \<and>
     set cols = (\<lambda>e. snd (snd (fst e))) ` set (valued codes recs) \<and>
     (\<forall>k. k \<notin> fst ` set (valued codes recs) \<longrightarrow> first_value codes recs k = NaN) \<and>
     (\<forall>pre k x post. valued codes recs = pre @ (k, x) # post \<and> k \<notin> fst ` set pre \<longrightarrow>
        first_value codes recs k = Num x)"
proof -
  let ?keys = "group_keys (entries_of codes recs)"
  let ?index = "sort (remdups (map (\<lambda>(s, oc, d). (s, oc)) ?keys))"
  let ?cols = "sort (remdups (map (\<lambda>(s, oc, d). d) ?keys))"
  from assms have ne: "recs \<noteq> []"
    by (auto simp add: shape_and_save_empty)
  from assms have out: "out = \<lparr>df_wide =
        \<lparr>df_columns = ''state_name'' # ''occupation_name'' # ?cols,
         df_rows = map (\<lambda>p. Str (fst p) # Str (snd p) #
                     map (\<lambda>d. first_value codes recs (fst p, snd p, d)) ?cols) ?index\<rparr>,
      output_file = \<lparr>csv_header = labelled_columns, csv_lines = map (labelled_row codes) recs\<rparr>\<rparr>"
    by (simp add: shape_and_save_eq [OF ne] Let_def split: if_splits)
  have i: "set ?index = (\<lambda>e. (fst (fst e), fst (snd (fst e)))) ` set (valued codes recs)"
    by (force simp add: set_group_keys image_iff)
  have c: "set ?cols = (\<lambda>e. snd (snd (fst e))) ` set (valued codes recs)"
    by (force simp add: set_group_keys image_iff)
  have "df_columns (df_wide out) = ''state_name'' # ''occupation_name'' # ?cols"
    and "df_rows (df_wide out) =
       map (\<lambda>p. Str (fst p) # Str (snd p) #
                 map (\<lambda>d. first_value codes recs (fst p, snd p, d)) ?cols) ?index"
    by (simp_all add: out)
  moreover have "distinct ?index" and "distinct ?cols" by simp_all
  moreover note i c
  moreover have "\<forall>k. k \<notin> fst ` set (valued codes recs) \<longrightarrow> first_value codes recs k = NaN"
    by (simp add: first_value_absent)
  moreover have "\<forall>pre k x post. valued codes recs = pre @ (k, x) # post \<and> k \<notin> fst ` set pre \<longrightarrow>
        first_value codes recs k = Num x"
    by (auto simp add: first_value_first)
  ultimately show ?thesis by blast
qed

lemma run_eq:
  "run api pf codes =
     (case reconcile pf (script_metadata codes) (all_results (fetch_all api (script_ids codes))) of
        Inl e \<Rightarrow> Inl e
      | Inr processed_data \<Rightarrow> shape_and_save codes processed_data)"
  by (simp add: run_def script_ids_def script_metadata_def Let_def)

lemma fetch_all_one_batch:
  assumes "ids \<noteq> []" and "length ids \<le> 50"
  shows "all_results (fetch_all api ids) = handle_response (api 1 ids) []"
proof -
  from assms have "0 < length ids" and "\<not> 0 + BATCH_SIZE < length ids"
    by (simp_all add: BATCH_SIZE_def)
  then show ?thesis
    using assms by (simp add: fetch_all_def batch_loop_last BATCH_SIZE_def)
qed

lemma handle_response_failed: "batch_failed r \<Longrightarrow> handle_response r rs = rs"
  by (cases r) auto

lemma batch_loop_all_failed:
  assumes "\<forall>n batch. batch_failed (api n batch)"
  shows "all_results (batch_loop api ids i st) = all_results st"
proof (induction "length ids - i" arbitrary: i st rule: less_induct)
  case less
  show ?case
  proof (cases rule: batch_loop_cases [of i ids])
    case stop
    then show ?thesis by (simp add: batch_loop_done)
  next
    case final
    then show ?thesis using assms by (simp add: batch_loop_last handle_response_failed)
  next
    case continue
    then have "length ids - (i + BATCH_SIZE) < length ids - i"
      using BATCH_SIZE_pos by simp
    from less [OF this] continue assms show ?thesis
      by (simp add: batch_loop_more handle_response_failed)
  qed
qed

lemma valued_measure_names:
  "e \<in> set (valued codes recs) \<Longrightarrow> snd (snd (fst e)) \<in> snd ` set (datatype_names codes)"
proof (induction recs)
  case Nil
  then show ?case by (simp add: valued_def map_filter_simps)
next
  case (Cons r recs)
  show ?case
  proof (cases "e \<in> set (valued codes recs)")
    case True
    then show ?thesis by (rule Cons.IH)
  next
    case False
    with Cons.prems obtain k x where k: "names_of codes r = Some k" and e: "e = (k, x)"
      by (auto simp add: valued_def map_filter_simps split: option.splits py_float.splits)
    obtain s oc d where kd: "k = (s, oc, d)" by (cases k) auto
    from k kd obtain code where "map_of (datatype_names codes) code = Some d"
      by (auto simp add: names_of_def split: option.splits)
    then have "(code, d) \<in> set (datatype_names codes)" by (rule map_of_SomeD)
    then show ?thesis using e kd by force
  qed
qed

lemma shape_and_save_completes:
  assumes "recs \<noteq> []"
    and "''state_name'' \<notin> snd ` set (datatype_names codes)"
    and "''occupation_name'' \<notin> snd ` set (datatype_names codes)"
  shows "\<exists>out. shape_and_save codes recs = Inr out"
proof -
  let ?cols = "sort (remdups (map (\<lambda>(s, oc, d). d) (group_keys (entries_of codes recs))))"
  have cols: "set ?cols = (\<lambda>e. snd (snd (fst e))) ` set (valued codes recs)"
    by (force simp add: set_group_keys image_iff)
  have sub: "d \<in> snd ` set (datatype_names codes)" if "d \<in> set ?cols" for d
  proof -
    from that cols obtain e where "e \<in> set (valued codes recs)" "d = snd (snd (fst e))"
      by blast
    then show ?thesis using valued_measure_names [of e codes recs] by simp
  qed
  from sub assms(2) have a: "''state_name'' \<notin> set ?cols" by blast
  from sub assms(3) have b: "''occupation_name'' \<notin> set ?cols" by blast
  from a b have c: "\<not> (''state_name'' \<in> set ?cols \<or> ''occupation_name'' \<in> set ?cols)"
    by blast
  show ?thesis
    unfolding shape_and_save_eq [OF assms(1)] Let_def
    by (simp only: c if_False) blast
qed

lemma shape_example_absent_median:
  "shape_and_save example_codes
     [\<lparr>fr_series_id = ''OEUS0600000011-000004'', fr_state_code = ''06'',
       fr_occupation_code = ''11-0000'', fr_datatype_code = ''04'',
       fr_year = ''2023'', fr_value = Some (Number (52000::nat))\<rparr>,
      \<lparr>fr_series_id = ''OEUS0600000011-000013'', fr_state_code = ''06'',
       fr_occupation_code = ''11-0000'', fr_datatype_code = ''13'',
       fr_year = ''2023'', fr_value = None\<rparr>] =
   Inr \<lparr>df_wide =
          \<lparr>df_columns = [''state_name'', ''occupation_name'', ''Annual mean wage''],
           df_rows = [[Str ''California'', Str ''Management'', Num 52000]]\<rparr>,
        output_file =
          \<lparr>csv_header = [''series_id'', ''state_code'', ''occupation_code'', ''datatype_code'',
             ''year'', ''value'', ''state_name'', ''occupation_name'', ''datatype_name''],
           csv_lines =
             [[Str ''OEUS0600000011-000004'', Str ''06'', Str ''11-0000'', Str ''04'',
               Str ''2023'', Num 52000, Str ''California'', Str ''Management'',
               Str ''Annual mean wage''],
              [Str ''OEUS0600000011-000013'', Str ''06'', Str ''11-0000'', Str ''13'',
               Str ''2023'', NaN, Str ''California'', Str ''Management'',
               Str ''Annual median wage'']]\<rparr>\<rparr>"
  by (simp add: shape_and_save_eq Let_def entries_of_def names_of_def example_codes_def
      group_keys_def agg_first_def first_value_def valued_def labelled_row_def flat_row_def
      value_cell_def label_cell_def map_filter_simps labelled_columns_def flat_columns_def)

text \<open>
  Claim C9 as stated fails where a value is absent: two flat records of one state and
  occupation, the mean wage with a value and the median wage without one, give a wide
  table with no column for the median wage, although that measure-type name is present
  in the flat records.
\<close>

theorem absent_value_drops_measure_column:
  "names_of example_codes
     \<lparr>fr_series_id = ''OEUS0600000011-000013'', fr_state_code = ''06'',
      fr_occupation_code = ''11-0000'', fr_datatype_code = ''13'',
      fr_year = ''2023'', fr_value = (None :: nat py_float option)\<rparr> =
     Some (''California'', ''Management'', ''Annual median wage'') \<and>
   map_sum id (\<lambda>out. df_columns (df_wide out))
     (shape_and_save example_codes
       [\<lparr>fr_series_id = ''OEUS0600000011-000004'', fr_state_code = ''06'',
         fr_occupation_code = ''11-0000'', fr_datatype_code = ''04'',
         fr_year = ''2023'', fr_value = Some (Number (52000::nat))\<rparr>,
        \<lparr>fr_series_id = ''OEUS0600000011-000013'', fr_state_code = ''06'',
         fr_occupation_code = ''11-0000'', fr_datatype_code = ''13'',
         fr_year = ''2023'', fr_value = None\<rparr>]) =
     Inr [''state_name'', ''occupation_name'', ''Annual mean wage'']"
  by (simp add: shape_example_absent_median) (simp add: names_of_def example_codes_def)


text \<open>
  A value that \<open>float\<close> read from the string \<open>nan\<close> is missing for pandas like \<open>None\<close>:
  the measure type that has only such a value gets no column.
\<close>

lemma nan_value_drops_measure_column:
  "shape_and_save example_codes
     [\<lparr>fr_series_id = ''OEUS0600000011-000004'', fr_state_code = ''06'',
       fr_occupation_code = ''11-0000'', fr_datatype_code = ''04'',
       fr_year = ''2023'', fr_value = Some (NotANumber :: nat py_float)\<rparr>,
      \<lparr>fr_series_id = ''OEUS0600000011-000013'', fr_state_code = ''06'',
       fr_occupation_code = ''11-0000'', fr_datatype_code = ''13'',
       fr_year = ''2023'', fr_value = Some (Number 50000)\<rparr>] =
   Inr \<lparr>df_wide =
          \<lparr>df_columns = [''state_name'', ''occupation_name'', ''Annual median wage''],
           df_rows = [[Str ''California'', Str ''Management'', Num 50000]]\<rparr>,
        output_file =
          \<lparr>csv_header = [''series_id'', ''state_code'', ''occupation_code'', ''datatype_code'',
             ''year'', ''value'', ''state_name'', ''occupation_name'', ''datatype_name''],
           csv_lines =
             [[Str ''OEUS0600000011-000004'', Str ''06'', Str ''11-0000'', Str ''04'',
               Str ''2023'', NaN, Str ''California'', Str ''Management'',
               Str ''Annual mean wage''],
              [Str ''OEUS0600000011-000013'', Str ''06'', Str ''11-0000'', Str ''13'',
               Str ''2023'', Num 50000, Str ''California'', Str ''Management'',
               Str ''Annual median wage'']]\<rparr>\<rparr>"
  by (simp add: shape_and_save_eq Let_def entries_of_def names_of_def example_codes_def
      group_keys_def agg_first_def first_value_def valued_def labelled_row_def flat_row_def
      value_cell_def label_cell_def map_filter_simps labelled_columns_def flat_columns_def)

lemma shape_example_duplicates:
  "shape_and_save example_codes example_records =
   Inr \<lparr>df_wide =
          \<lparr>df_columns = [''state_name'', ''occupation_name'', ''Annual mean wage'',
             ''Annual median wage''],
           df_rows = [[Str ''California'', Str ''Management'', Num 52000, Num 50000]]\<rparr>,
        output_file =
          \<lparr>csv_header = [''series_id'', ''state_code'', ''occupation_code'', ''datatype_code'',
             ''year'', ''value'', ''state_name'', ''occupation_name'', ''datatype_name''],
           csv_lines =
             [[Str ''OEUS0600000011-000013'', Str ''06'', Str ''11-0000'', Str ''13'',
               Str ''2023'', Num 50000, Str ''California'', Str ''Management'',
               Str ''Annual median wage''],
              [Str ''OEUS0600000011-000004'', Str ''06'', Str ''11-0000'', Str ''04'',
               Str ''2024'', NaN, Str ''California'', Str ''Management'',
               Str ''Annual mean wage''],
              [Str ''OEUS0600000011-000004'', Str ''06'', Str ''11-0000'', Str ''04'',
               Str ''2023'', Num 52000, Str ''California'', Str ''Management'',
               Str ''Annual mean wage''],
              [Str ''OEUS0600000011-000004'', Str ''06'', Str ''11-0000'', Str ''04'',
               Str ''2022'', Num 51000, Str ''California'', Str ''Management'',
               Str ''Annual mean wage'']]\<rparr>\<rparr>"
  by (simp add: shape_and_save_eq Let_def entries_of_def names_of_def example_codes_def
      group_keys_def agg_first_def first_value_def valued_def labelled_row_def flat_row_def
      value_cell_def label_cell_def map_filter_simps labelled_columns_def flat_columns_def
      example_records_def)

lemma valued_example:
  "valued example_codes example_records =
     [((''California'', ''Management'', ''Annual median wage''), 50000),
      ((''California'', ''Management'', ''Annual mean wage''), 52000),
      ((''California'', ''Management'', ''Annual mean wage''), 51000)]"
  by (simp add: valued_def names_of_def example_codes_def example_records_def map_filter_simps)

theorem wide_report_shape_witness:
  "shape_and_save example_codes example_records =
     Inr \<lparr>df_wide =
          \<lparr>df_columns = [''state_name'', ''occupation_name'', ''Annual mean wage'',
             ''Annual median wage''],
           df_rows = [[Str ''California'', Str ''Management'', Num 52000, Num 50000]]\<rparr>,
        output_file =
          \<lparr>csv_header = [''series_id'', ''state_code'', ''occupation_code'', ''datatype_code'',
             ''year'', ''value'', ''state_name'', ''occupation_name'', ''datatype_name''],
           csv_lines =
             [[Str ''OEUS0600000011-000013'', Str ''06'', Str ''11-0000'', Str ''13'',
               Str ''2023'', Num 50000, Str ''California'', Str ''Management'',
               Str ''Annual median wage''],
              [Str ''OEUS0600000011-000004'', Str ''06'', Str ''11-0000'', Str ''04'',
               Str ''2024'', NaN, Str ''California'', Str ''Management'',
               Str ''Annual mean wage''],
              [Str ''OEUS0600000011-000004'', Str ''06'', Str ''11-0000'', Str ''04'',
               Str ''2023'', Num 52000, Str ''California'', Str ''Management'',
               Str ''Annual mean wage''],
              [Str ''OEUS0600000011-000004'', Str ''06'', Str ''11-0000'', Str ''04'',
               Str ''2022'', Num 51000, Str ''California'', Str ''Management'',
               Str ''Annual mean wage'']]\<rparr>\<rparr> \<and>
   first_value example_codes example_records
     (''California'', ''Management'', ''Annual mean wage'') = Num 52000 \<and>
   first_value example_codes example_records
     (''California'', ''Management'', ''Hourly mean wage'') = NaN"
proof -
  note h = shape_example_duplicates
  let ?mean = "(''California'', ''Management'', ''Annual mean wage'')"
  let ?pre = "[((''California'', ''Management'', ''Annual median wage''), 50000::nat)]"
  let ?post = "[((''California'', ''Management'', ''Annual mean wage''), 51000::nat)]"
  from wide_report_shape [OF h]
  have absent: "\<forall>k. k \<notin> fst ` set (valued example_codes example_records) \<longrightarrow>
        first_value example_codes example_records k = NaN"
    and first: "\<forall>pre k x post.
        valued example_codes example_records = pre @ (k, x) # post \<and> k \<notin> fst ` set pre \<longrightarrow>
        first_value example_codes example_records k = Num x"
    by blast+
  have "valued example_codes example_records = ?pre @ (?mean, 52000) # ?post \<and>
      ?mean \<notin> fst ` set ?pre"
    by (simp add: valued_example)
  with first have a: "first_value example_codes example_records ?mean = Num 52000"
    by blast
  have "(''California'', ''Management'', ''Hourly mean wage'') \<notin>
      fst ` set (valued example_codes example_records)"
    by (simp add: valued_example)
  with absent have b: "first_value example_codes example_records
      (''California'', ''Management'', ''Hourly mean wage'') = NaN"
    by blast
  from h a b show ?thesis by blast
qed

lemma script_example:
  "script_ids example_codes = [''OEUS0600000011-000004'', ''OEUS0600000011-000013'']"
  "script_metadata example_codes =
     [\<lparr>meta_series_id = ''OEUS0600000011-000004'', meta_state_code = ''06'',
       meta_occupation_code = ''11-0000'', meta_datatype_code = ''04''\<rparr>,
      \<lparr>meta_series_id = ''OEUS0600000011-000013'', meta_state_code = ''06'',
       meta_occupation_code = ''11-0000'', meta_datatype_code = ''13''\<rparr>]"
  by (simp_all add: script_ids_def script_metadata_def example_codes_def datatype_codes_def
      scenario_A_ids scenario_A_metadata)

lemma results_example:
  "all_results (fetch_all example_api (script_ids example_codes)) =
     [\<lparr>seriesID = ''OEUS0600000011-000004'',
       data = [\<lparr>dp_period = ''A01'', dp_year = ''2023'', dp_value = ''52000''\<rparr>]\<rparr>,
      \<lparr>seriesID = ''OEUS0600000011-000013'',
       data = [\<lparr>dp_period = ''A01'', dp_year = ''2023'', dp_value = ''-''\<rparr>]\<rparr>]"
  by (simp add: script_example fetch_all_one_batch example_api_def)

lemma reconcile_example:
  "reconcile example_float (script_metadata example_codes)
     (all_results (fetch_all example_api (script_ids example_codes))) =
   Inr [\<lparr>fr_series_id = ''OEUS0600000011-000004'', fr_state_code = ''06'',
         fr_occupation_code = ''11-0000'', fr_datatype_code = ''04'',
         fr_year = ''2023'', fr_value = Some (Number 52000)\<rparr>,
        \<lparr>fr_series_id = ''OEUS0600000011-000013'', fr_state_code = ''06'',
         fr_occupation_code = ''11-0000'', fr_datatype_code = ''13'',
         fr_year = ''2023'', fr_value = None\<rparr>]"
  by (simp only: results_example)
     (simp add: script_example reconcile_def find_metadata_def parse_value_def example_float_def)

lemma run_example:
  "run example_api example_float example_codes =
   Inr \<lparr>df_wide =
          \<lparr>df_columns = [''state_name'', ''occupation_name'', ''Annual mean wage''],
           df_rows = [[Str ''California'', Str ''Management'', Num 52000]]\<rparr>,
        output_file =
          \<lparr>csv_header = [''series_id'', ''state_code'', ''occupation_code'', ''datatype_code'',
             ''year'', ''value'', ''state_name'', ''occupation_name'', ''datatype_name''],
           csv_lines =
             [[Str ''OEUS0600000011-000004'', Str ''06'', Str ''11-0000'', Str ''04'',
               Str ''2023'', Num 52000, Str ''California'', Str ''Management'',
               Str ''Annual mean wage''],
              [Str ''OEUS0600000011-000013'', Str ''06'', Str ''11-0000'', Str ''13'',
               Str ''2023'', NaN, Str ''California'', Str ''Management'',
               Str ''Annual median wage'']]\<rparr>\<rparr>"
  by (simp only: run_eq reconcile_example sum.case shape_example_absent_median)

text \<open>
  Claim C5 as stated fails on the columns: the frame is written after the three label
  columns were added to it, so the file of a completed run has nine columns, not six.
\<close>

theorem csv_has_label_columns:
  "map_sum id (\<lambda>out. csv_header (output_file out))
     (run example_api example_float example_codes) =
     Inr [''series_id'', ''state_code'', ''occupation_code'', ''datatype_code'', ''year'',
          ''value'', ''state_name'', ''occupation_name'', ''datatype_name''] \<and>
   [''series_id'', ''state_code'', ''occupation_code'', ''datatype_code'', ''year'',
    ''value'', ''state_name'', ''occupation_name'', ''datatype_name''] \<noteq>
   [''series_id'', ''state_code'', ''occupation_code'', ''datatype_code'', ''year'', ''value'']"
  by (simp add: run_example)

text \<open>
  Claim C5, amended. The file written by a run that reaches its last line has one line
  per flat record, in order, and nine columns: identifier, state code, occupation code,
  measure-type code, year and value, followed by the state name, the occupation name
  and the measure-type name. Each line holds the record's six fields and its three
  labels.
\<close>

theorem csv_output:
  assumes "run api pf codes = Inr out"
  shows "\<exists>processed_data.
     reconcile pf (script_metadata codes) (all_results (fetch_all api (script_ids codes))) =
       Inr processed_data \<and>
     csv_header (output_file out) =
       [''series_id'', ''state_code'', ''occupation_code'', ''datatype_code'', ''year'',
        ''value'', ''state_name'', ''occupation_name'', ''datatype_name''] \<and>
     length (csv_lines (output_file out)) = length processed_data \<and>
     (\<forall>i < length processed_data.
        csv_lines (output_file out) ! i =
          flat_row (processed_data ! i) @
          [label_cell (state_names codes) (fr_state_code (processed_data ! i)),
           label_cell (occupation_names codes) (fr_occupation_code (processed_data ! i)),
           label_cell (datatype_names codes) (fr_datatype_code (processed_data ! i))])"
proof -
  from assms obtain recs where rec: "reconcile pf (script_metadata codes)
      (all_results (fetch_all api (script_ids codes))) = Inr recs"
    and shape: "shape_and_save codes recs = Inr out"
    by (auto simp add: run_eq split: sum.splits)
  from shape have ne: "recs \<noteq> []"
    by (auto simp add: shape_and_save_empty)
  from shape have written: "output_file out =
      \<lparr>csv_header = labelled_columns, csv_lines = map (labelled_row codes) recs\<rparr>"
    by (auto simp add: shape_and_save_eq [OF ne] Let_def split: if_splits)
  have "csv_header (output_file out) =
       [''series_id'', ''state_code'', ''occupation_code'', ''datatype_code'', ''year'',
        ''value'', ''state_name'', ''occupation_name'', ''datatype_name'']"
    by (simp add: written labelled_columns_def flat_columns_def)
  moreover have "length (csv_lines (output_file out)) = length recs"
    by (simp add: written)
  moreover have "\<forall>i < length recs.
        csv_lines (output_file out) ! i =
          flat_row (recs ! i) @
          [label_cell (state_names codes) (fr_state_code (recs ! i)),
           label_cell (occupation_names codes) (fr_occupation_code (recs ! i)),
           label_cell (datatype_names codes) (fr_datatype_code (recs ! i))]"
    by (simp add: written labelled_row_def)
  ultimately show ?thesis using rec by blast
qed


theorem csv_output_witness:
  "run example_api example_float example_codes =
   Inr \<lparr>df_wide =
          \<lparr>df_columns = [''state_name'', ''occupation_name'', ''Annual mean wage''],
           df_rows = [[Str ''California'', Str ''Management'', Num 52000]]\<rparr>,
        output_file =
          \<lparr>csv_header = [''series_id'', ''state_code'', ''occupation_code'', ''datatype_code'',
             ''year'', ''value'', ''state_name'', ''occupation_name'', ''datatype_name''],
           csv_lines =
             [[Str ''OEUS0600000011-000004'', Str ''06'', Str ''11-0000'', Str ''04'',
               Str ''2023'', Num 52000, Str ''California'', Str ''Management'',
               Str ''Annual mean wage''],
              [Str ''OEUS0600000011-000013'', Str ''06'', Str ''11-0000'', Str ''13'',
               Str ''2023'', NaN, Str ''California'', Str ''Management'',
               Str ''Annual median wage'']]\<rparr>\<rparr> \<and>
   (\<exists>processed_data.
      reconcile example_float (script_metadata example_codes)
        (all_results (fetch_all example_api (script_ids example_codes))) = Inr processed_data \<and>
      length processed_data = 2)"
proof -
  note h = run_example
  from csv_output [OF h] obtain processed_data where
    rec: "reconcile example_float (script_metadata example_codes)
        (all_results (fetch_all example_api (script_ids example_codes))) = Inr processed_data"
    and len: "length
        (csv_lines (output_file
          \<lparr>df_wide =
             \<lparr>df_columns = [''state_name'', ''occupation_name'', ''Annual mean wage''],
              df_rows = [[Str ''California'', Str ''Management'', Num (52000::nat)]]\<rparr>,
           output_file =
             \<lparr>csv_header = [''series_id'', ''state_code'', ''occupation_code'',
                ''datatype_code'', ''year'', ''value'', ''state_name'', ''occupation_name'',
                ''datatype_name''],
              csv_lines =
                [[Str ''OEUS0600000011-000004'', Str ''06'', Str ''11-0000'', Str ''04'',
                  Str ''2023'', Num 52000, Str ''California'', Str ''Management'',
                  Str ''Annual mean wage''],
                 [Str ''OEUS0600000011-000013'', Str ''06'', Str ''11-0000'', Str ''13'',
                  Str ''2023'', NaN, Str ''California'', Str ''Management'',
                  Str ''Annual median wage'']]\<rparr>\<rparr>)) = length processed_data"
    by blast
  from len have "length processed_data = 2" by simp
  with rec h show ?thesis by blast
qed

section \<open>After the batching stage\<close>

lemma failing_api_results:
  assumes "\<forall>n batch. batch_failed (api n batch)"
  shows "all_results (fetch_all api ids) = []"
  using batch_loop_all_failed [OF assms, of ids 0 "\<lparr>all_results = [], events = []\<rparr>"]
  by (simp add: fetch_all_def)

text \<open>
  With an empty accumulator the frame of line 115 has no columns, and line 122 raises.
\<close>

lemma no_records_key_error:
  "(\<forall>n batch. batch_failed (api n batch)) \<Longrightarrow> run api pf codes = Inl KeyError"
  by (simp add: run_eq failing_api_results reconcile_def shape_and_save_empty)

text \<open>
  Claim C4 as stated (the stages after batching complete for every outcome of the
  calls) fails when a batch succeeds and returns a value that is neither \<open>-\<close> nor a
  number: reconciliation raises \<open>ValueError\<close> and the run ends.
\<close>

theorem unparseable_value_aborts_run:
  "run (\<lambda>n batch. Envelope ''REQUEST_SUCCEEDED''
          [\<lparr>seriesID = ''OEUS0600000011-000004'',
            data = [\<lparr>dp_period = ''A01'', dp_year = ''2023'', dp_value = ''n/a''\<rparr>]\<rparr>])
     example_float example_codes = Inl ValueError"
  by (simp add: run_eq script_example fetch_all_one_batch reconcile_def find_metadata_def
      parse_value_def example_float_def)

text \<open>
  Claim C4, amended. No failure of a batch ends the run: the batch loop always finishes,
  and reconciliation starts from whatever was accumulated. It completes exactly when every
  annual observation of a returned series with metadata carries \<open>-\<close> or a value that
  \<open>float\<close> converts, and the run ends there with \<open>ValueError\<close> otherwise. When every
  batch fails, the accumulator is empty and reconciliation completes with no flat
  record. When reconciliation completes with at least one flat record, and no
  measure-type name is \<open>state_name\<close> or \<open>occupation_name\<close>, labelling, reshaping and
  output complete as well.
\<close>

theorem after_batching:
  "(list_all (\<lambda>t. parses pf (snd (snd t)))
      (selected (script_metadata codes) (all_results (fetch_all api (script_ids codes)))) \<longrightarrow>
      (\<exists>processed_data.
         reconcile pf (script_metadata codes) (all_results (fetch_all api (script_ids codes))) =
           Inr processed_data \<and>
         run api pf codes = shape_and_save codes processed_data \<and>
         (processed_data \<noteq> [] \<and>
          ''state_name'' \<notin> snd ` set (datatype_names codes) \<and>
          ''occupation_name'' \<notin> snd ` set (datatype_names codes) \<longrightarrow>
          (\<exists>out. run api pf codes = Inr out)))) \<and>
   (\<not> list_all (\<lambda>t. parses pf (snd (snd t)))
      (selected (script_metadata codes) (all_results (fetch_all api (script_ids codes)))) \<longrightarrow>
      reconcile pf (script_metadata codes) (all_results (fetch_all api (script_ids codes))) =
        Inl ValueError \<and>
      run api pf codes = Inl ValueError) \<and>
   ((\<forall>n batch. batch_failed (api n batch)) \<longrightarrow>
      all_results (fetch_all api (script_ids codes)) = [] \<and>
      reconcile pf (script_metadata codes) (all_results (fetch_all api (script_ids codes))) =
        Inr [])"
proof (intro conjI impI)
  let ?sel = "selected (script_metadata codes) (all_results (fetch_all api (script_ids codes)))"
  assume ok: "list_all (\<lambda>t. parses pf (snd (snd t))) ?sel"
  then have rec: "reconcile pf (script_metadata codes)
      (all_results (fetch_all api (script_ids codes))) = Inr (map (flat_of_selected pf) ?sel)"
    by (simp add: reconcile_eq)
  then have run: "run api pf codes = shape_and_save codes (map (flat_of_selected pf) ?sel)"
    by (simp add: run_eq)
  have "map (flat_of_selected pf) ?sel \<noteq> [] \<and>
      ''state_name'' \<notin> snd ` set (datatype_names codes) \<and>
      ''occupation_name'' \<notin> snd ` set (datatype_names codes) \<longrightarrow>
      (\<exists>out. run api pf codes = Inr out)"
    using shape_and_save_completes [of "map (flat_of_selected pf) ?sel" codes] run by auto
  with rec run show "\<exists>processed_data.
         reconcile pf (script_metadata codes) (all_results (fetch_all api (script_ids codes))) =
           Inr processed_data \<and>
         run api pf codes = shape_and_save codes processed_data \<and>
         (processed_data \<noteq> [] \<and>
          ''state_name'' \<notin> snd ` set (datatype_names codes) \<and>
          ''occupation_name'' \<notin> snd ` set (datatype_names codes) \<longrightarrow>
          (\<exists>out. run api pf codes = Inr out))"
    by blast
next
  assume bad: "\<not> list_all (\<lambda>t. parses pf (snd (snd t)))
      (selected (script_metadata codes) (all_results (fetch_all api (script_ids codes))))"
  then show "reconcile pf (script_metadata codes)
      (all_results (fetch_all api (script_ids codes))) = Inl ValueError"
    by (simp add: reconcile_eq)
  then show "run api pf codes = Inl ValueError"
    by (simp add: run_eq)
next
  assume fail: "\<forall>n batch. batch_failed (api n batch)"
  then show "all_results (fetch_all api (script_ids codes)) = []"
    by (rule failing_api_results)
  then show "reconcile pf (script_metadata codes)
      (all_results (fetch_all api (script_ids codes))) = Inr []"
    by (simp add: reconcile_def)
qed


theorem after_batching_witness:
  "(\<exists>out. run example_api example_float example_codes = Inr out) \<and>
   run (\<lambda>n batch. Envelope ''REQUEST_SUCCEEDED''
          [\<lparr>seriesID = ''OEUS0600000011-000004'',
            data = [\<lparr>dp_period = ''A01'', dp_year = ''2023'', dp_value = ''n/a''\<rparr>]\<rparr>])
     example_float example_codes = Inl ValueError \<and>
   all_results (fetch_all (\<lambda>n batch. RequestException) (script_ids example_codes)) = [] \<and>
   reconcile example_float (script_metadata example_codes)
     (all_results (fetch_all (\<lambda>n batch. RequestException) (script_ids example_codes))) = Inr []"
proof -
  let ?bad = "\<lambda>n batch. Envelope ''REQUEST_SUCCEEDED''
          [\<lparr>seriesID = ''OEUS0600000011-000004'',
            data = [\<lparr>dp_period = ''A01'', dp_year = ''2023'', dp_value = ''n/a''\<rparr>]\<rparr>]"
  let ?down = "\<lambda>n batch. RequestException"
  have ok: "list_all (\<lambda>t. parses example_float (snd (snd t)))
      (selected (script_metadata example_codes)
        (all_results (fetch_all example_api (script_ids example_codes))))"
    by (simp only: results_example)
       (simp add: script_example selected_def find_metadata_def annual_def parses_def
          example_float_def)
  from after_batching [of example_float example_codes example_api] ok
  obtain processed_data where
    rec: "reconcile example_float (script_metadata example_codes)
        (all_results (fetch_all example_api (script_ids example_codes))) = Inr processed_data"
    and completes: "processed_data \<noteq> [] \<and>
          ''state_name'' \<notin> snd ` set (datatype_names example_codes) \<and>
          ''occupation_name'' \<notin> snd ` set (datatype_names example_codes) \<longrightarrow>
          (\<exists>out. run example_api example_float example_codes = Inr out)"
    by blast
  from rec have "processed_data \<noteq> []"
    by (auto simp add: reconcile_example)
  moreover have "''state_name'' \<notin> snd ` set (datatype_names example_codes)"
    and "''occupation_name'' \<notin> snd ` set (datatype_names example_codes)"
    by (simp_all add: example_codes_def)
  ultimately have a: "\<exists>out. run example_api example_float example_codes = Inr out"
    using completes by blast
  have "\<not> list_all (\<lambda>t. parses example_float (snd (snd t)))
      (selected (script_metadata example_codes)
        (all_results (fetch_all ?bad (script_ids example_codes))))"
    by (simp add: script_example fetch_all_one_batch selected_def find_metadata_def annual_def
        parses_def example_float_def)
  with after_batching [of example_float example_codes ?bad]
  have b: "run ?bad example_float example_codes = Inl ValueError"
    by blast
  have "\<forall>n batch. batch_failed (?down n batch)" by simp
  with after_batching [of example_float example_codes ?down]
  have c: "all_results (fetch_all ?down (script_ids example_codes)) = [] \<and>
      reconcile example_float (script_metadata example_codes)
        (all_results (fetch_all ?down (script_ids example_codes))) = Inr []"
    by blast
  from a b c show ?thesis by blast
qed

end
